theory Spec2Isabelle
  imports Complex_Main "HOL-Library.Word"
begin

section \<open>JavaScript numbers\<close>

text \<open>
  The visualizer computes with JavaScript numbers. The model idealises a finite number
  to a real (no rounding, no overflow) and keeps \<open>NaN\<close> as a value of its own, because
  the source produces it: \<open>0 / 0\<close> in the band averages, and every arithmetic operation
  on \<open>undefined\<close>, which is what a read beyond the end of an array returns. Arithmetic
  with \<open>NaN\<close> is \<open>NaN\<close>.
\<close>

datatype jsnum = NaN | Fin real

instantiation jsnum :: "{plus, minus, times}"
begin

fun plus_jsnum :: "jsnum \<Rightarrow> jsnum \<Rightarrow> jsnum" where
  "plus_jsnum (Fin p) (Fin q) = Fin (p + q)"
| "plus_jsnum _ _ = NaN"

fun minus_jsnum :: "jsnum \<Rightarrow> jsnum \<Rightarrow> jsnum" where
  "minus_jsnum (Fin p) (Fin q) = Fin (p - q)"
| "minus_jsnum _ _ = NaN"

fun times_jsnum :: "jsnum \<Rightarrow> jsnum \<Rightarrow> jsnum" where
  "times_jsnum (Fin p) (Fin q) = Fin (p * q)"
| "times_jsnum _ _ = NaN"

instance ..

end

text \<open>\<open>Math.sqrt\<close>: \<open>NaN\<close> on a negative argument and on \<open>NaN\<close>.\<close>

fun js_sqrt :: "jsnum \<Rightarrow> jsnum" where
  "js_sqrt (Fin p) = (if p < 0 then NaN else Fin (sqrt p))"
| "js_sqrt NaN = NaN"

text \<open>
  The operand \<open>l || 1\<close>: the number \<open>l\<close> when it is truthy, and 1 when it is
  \<open>0\<close> or \<open>NaN\<close>. The result is never zero, so one may divide by it.
\<close>

fun or_one :: "jsnum \<Rightarrow> real" where
  "or_one (Fin l) = (if l = 0 then 1 else l)"
| "or_one NaN = 1"

text \<open>
  A read of a typed array: the element, or \<open>undefined\<close> beyond the end, which every
  later arithmetic operation (and every store into a \<open>Float32Array\<close>) turns into
  \<open>NaN\<close>.
\<close>

definition rd :: "jsnum list \<Rightarrow> nat \<Rightarrow> jsnum" where
  "rd arr k = (if k < length arr then arr ! k else NaN)"

section \<open>Vectors and triangles (three.js)\<close>

text \<open>
  \<open>THREE.Vector3\<close> and \<open>THREE.Triangle\<close>, with the operations of three.js the
  generator calls: \<open>addVectors\<close>, \<open>multiplyScalar\<close>, \<open>length\<close> and
  \<open>normalize\<close>, which is \<open>divideScalar(length() || 1)\<close>, that is, a multiplication by
  \<open>1 / (length() || 1)\<close>.
\<close>

datatype Vector3 = Vector3 (vx: jsnum) (vy: jsnum) (vz: jsnum)

datatype Triangle = Triangle (tri_a: Vector3) (tri_b: Vector3) (tri_c: Vector3)

definition addVectors :: "Vector3 \<Rightarrow> Vector3 \<Rightarrow> Vector3" where
  "addVectors p q = Vector3 (vx p + vx q) (vy p + vy q) (vz p + vz q)"

definition multiplyScalar :: "Vector3 \<Rightarrow> jsnum \<Rightarrow> Vector3" where
  "multiplyScalar p s = Vector3 (vx p * s) (vy p * s) (vz p * s)"

definition length_v3 :: "Vector3 \<Rightarrow> jsnum" where
  "length_v3 p = js_sqrt (vx p * vx p + vy p * vy p + vz p * vz p)"

definition normalize :: "Vector3 \<Rightarrow> Vector3" where
  "normalize p = multiplyScalar p (Fin (1 / or_one (length_v3 p)))"

text \<open>A vector with finite coordinates, and the origin.\<close>

definition vec :: "real \<Rightarrow> real \<Rightarrow> real \<Rightarrow> Vector3" where
  "vec x y z = Vector3 (Fin x) (Fin y) (Fin z)"

fun is_finite :: "jsnum \<Rightarrow> bool" where
  "is_finite (Fin p) = True"
| "is_finite NaN = False"

definition finite_v3 :: "Vector3 \<Rightarrow> bool" where
  "finite_v3 p = (is_finite (vx p) \<and> is_finite (vy p) \<and> is_finite (vz p))"

definition origin :: Vector3 where
  "origin = Vector3 (Fin 0) (Fin 0) (Fin 0)"

section \<open>The fractal generator: subdivision\<close>

text \<open>
  One pass of the subdivision loop over one triangle (\<open>createNeogenesisFractal\<close>, the
  body of \<open>finalTriangles.forEach\<close>): the three edge midpoints, each normalised and
  scaled by the length of \<open>tri.a\<close>, and the three triangles pushed, in the order of
  the three \<open>push\<close> calls.
\<close>

definition midpoint :: "Vector3 \<Rightarrow> Vector3 \<Rightarrow> Vector3" where
  "midpoint p q = multiplyScalar (addVectors p q) (Fin 0.5)"

definition project :: "Vector3 \<Rightarrow> jsnum \<Rightarrow> Vector3" where
  "project m radius = multiplyScalar (normalize m) radius"

definition m12 :: "Triangle \<Rightarrow> Vector3" where
  "m12 tri = project (midpoint (tri_a tri) (tri_b tri)) (length_v3 (tri_a tri))"

definition m23 :: "Triangle \<Rightarrow> Vector3" where
  "m23 tri = project (midpoint (tri_b tri) (tri_c tri)) (length_v3 (tri_a tri))"

definition m31 :: "Triangle \<Rightarrow> Vector3" where
  "m31 tri = project (midpoint (tri_c tri) (tri_a tri)) (length_v3 (tri_a tri))"

definition subdivideTriangle :: "Triangle \<Rightarrow> Triangle list" where
  "subdivideTriangle tri =
     [Triangle (tri_a tri) (m12 tri) (m31 tri),
      Triangle (tri_b tri) (m23 tri) (m12 tri),
      Triangle (tri_c tri) (m31 tri) (m23 tri)]"

text \<open>One pass over the current list: \<open>newTriangles\<close> after the \<open>forEach\<close>.\<close>

definition subdivideStep :: "Triangle list \<Rightarrow> Triangle list" where
  "subdivideStep tris = concat (map subdivideTriangle tris)"

text \<open>The loop \<open>for (let i = 0; i < recursionDepth; i++)\<close>, by the number of passes.\<close>

fun subdivide :: "nat \<Rightarrow> Triangle list \<Rightarrow> Triangle list" where
  "subdivide 0 tris = tris"
| "subdivide (Suc n) tris = subdivide n (subdivideStep tris)"

section \<open>The fractal generator: geometry in, geometry out\<close>

text \<open>
  A \<open>THREE.BufferGeometry\<close>: its named attributes, each by the flat array of numbers
  it holds (three per vertex for \<open>position\<close> and \<open>normal\<close>), and the optional index
  buffer. An attribute that was never set is absent; \<open>new THREE.BufferGeometry()\<close>
  has none. The fractal planet and the particle galaxy are both geometries of this kind.
\<close>

record BufferGeometry =
  attributes :: "string \<rightharpoonup> jsnum list"
  index :: "nat list option"

definition emptyGeometry :: BufferGeometry where
  "emptyGeometry = \<lparr>attributes = Map.empty, index = None\<rparr>"

text \<open>\<open>geometry.setAttribute(name, attribute)\<close>; an undefined attribute leaves the name unset.\<close>

definition setAttribute :: "BufferGeometry \<Rightarrow> string \<Rightarrow> jsnum list option \<Rightarrow> BufferGeometry" where
  "setAttribute geometry name attribute = geometry\<lparr>attributes := (attributes geometry)(name := attribute)\<rparr>"

datatype error = TypeError | RangeError

text \<open>
  \<open>index.getX(i)\<close> is \<open>undefined\<close> beyond the end of the index buffer, and
  \<open>fromBufferAttribute(attribute, j)\<close> reads the three numbers at \<open>j * 3\<close>; with an
  undefined \<open>j\<close>, or beyond the end of the array, the coordinates are undefined.
\<close>

definition getX_index :: "nat list \<Rightarrow> nat \<Rightarrow> nat option" where
  "getX_index idx i = (if i < length idx then Some (idx ! i) else None)"

fun fromBufferAttribute :: "jsnum list \<Rightarrow> nat option \<Rightarrow> Vector3" where
  "fromBufferAttribute arr None = Vector3 NaN NaN NaN"
| "fromBufferAttribute arr (Some j) = Vector3 (rd arr (j * 3)) (rd arr (j * 3 + 1)) (rd arr (j * 3 + 2))"

text \<open>
  The decomposition into \<open>initialTriangles\<close>. Both loops step \<open>i\<close> by 3 from 0 while
  \<open>i < count\<close>; the \<open>k\<close>-th pass has \<open>i = 3 * k\<close>. The count of the index buffer is
  its length, so there are \<open>\<lceil>length / 3\<rceil>\<close> passes; the count of the position attribute
  is a third of the length of its array, so there are \<open>\<lceil>length / 9\<rceil>\<close>. A geometry
  without a position attribute raises a \<open>TypeError\<close> at the first access to it: at
  \<open>basePositions.count\<close> when it has no index, in the first pass when it has one.
\<close>

definition initialTriangles :: "BufferGeometry \<Rightarrow> error + Triangle list" where
  "initialTriangles baseGeometry =
     (case index baseGeometry of
        Some idx \<Rightarrow>
          (if idx = [] then Inr []
           else case attributes baseGeometry ''position'' of
             None \<Rightarrow> Inl TypeError
           | Some basePositions \<Rightarrow>
               Inr (map (\<lambda>k. Triangle
                      (fromBufferAttribute basePositions (getX_index idx (3 * k)))
                      (fromBufferAttribute basePositions (getX_index idx (3 * k + 1)))
                      (fromBufferAttribute basePositions (getX_index idx (3 * k + 2))))
                    [0 ..< (length idx + 2) div 3]))
      | None \<Rightarrow>
          (case attributes baseGeometry ''position'' of
             None \<Rightarrow> Inl TypeError
           | Some basePositions \<Rightarrow>
               Inr (map (\<lambda>k. Triangle
                      (fromBufferAttribute basePositions (Some (3 * k)))
                      (fromBufferAttribute basePositions (Some (3 * k + 1)))
                      (fromBufferAttribute basePositions (Some (3 * k + 2))))
                    [0 ..< (length basePositions + 8) div 9])))"

text \<open>The geometry built for one triangle in the collection step: nine numbers.\<close>

definition triangleGeometry :: "Triangle \<Rightarrow> BufferGeometry" where
  "triangleGeometry tri =
     setAttribute emptyGeometry ''position'' (Some
        [vx (tri_a tri), vy (tri_a tri), vz (tri_a tri),
         vx (tri_b tri), vy (tri_b tri), vz (tri_b tri),
         vx (tri_c tri), vy (tri_c tri), vz (tri_c tri)])"

text \<open>
  The three functions of three.js that finish the geometry are not part of the
  repository; the generator takes them as parameters. \<open>mergeGeometries\<close> may return
  \<open>null\<close>; \<open>computeVertexNormals\<close> updates the geometry it is called on, which is
  the geometry returned.
\<close>

record three_js =
  mergeGeometries :: "BufferGeometry list \<Rightarrow> BufferGeometry option"
  mergeVertices :: "BufferGeometry \<Rightarrow> BufferGeometry"
  computeVertexNormals :: "BufferGeometry \<Rightarrow> BufferGeometry"

text \<open>
  \<open>createNeogenesisFractal\<close>. The depth is an integer (the control steps by 1); the
  subdivision loop makes \<open>nat recursionDepth\<close> passes, none for a negative depth.
\<close>

definition createNeogenesisFractal ::
  "three_js \<Rightarrow> BufferGeometry \<Rightarrow> int \<Rightarrow> error + BufferGeometry" where
  "createNeogenesisFractal three baseGeometry recursionDepth =
     (case initialTriangles baseGeometry of
        Inl e \<Rightarrow> Inl e
      | Inr initial \<Rightarrow>
          if recursionDepth = 0 then Inr baseGeometry
          else
            (let finalTriangles = subdivide (nat recursionDepth) initial;
                geometries = map triangleGeometry finalTriangles
            in if geometries = [] then Inr emptyGeometry
               else (case mergeGeometries three geometries of
                       None \<Rightarrow> Inr emptyGeometry
                     | Some mergedGeo \<Rightarrow>
                         Inr (computeVertexNormals three (mergeVertices three mergedGeo)))))"

section \<open>The audio collaborator\<close>

text \<open>
  \<open>AudioProcessor\<close>, by what the animation loop reads of it. \<open>frequencyData\<close> is a
  \<open>Uint8Array\<close>. The bytes the analyser node holds at a tick are an input of the
  model: \<open>getByteFrequencyData\<close> copies them over the front of the array it is given.
\<close>

record AudioProcessor =
  isInitialized :: bool
  frequencyData :: "8 word list"
  frequencyBinCount :: nat

definition getByteFrequencyData :: "8 word list \<Rightarrow> 8 word list \<Rightarrow> 8 word list" where
  "getByteFrequencyData analyserBytes arr =
     take (length arr) analyserBytes @ drop (length analyserBytes) arr"

definition updateFrequencyData :: "8 word list \<Rightarrow> AudioProcessor \<Rightarrow> AudioProcessor" where
  "updateFrequencyData analyserBytes audio =
     (if isInitialized audio
      then audio\<lparr>frequencyData := getByteFrequencyData analyserBytes (frequencyData audio)\<rparr>
      else audio\<lparr>frequencyData := map (\<lambda>_. 0) (frequencyData audio)\<rparr>)"

section \<open>The band averages\<close>

text \<open>
  \<open>freqData.slice(start, end)\<close> with both bounds already truncated to integers: the
  elements from \<open>start\<close> up to, not including, \<open>end\<close>, both clamped to the length.
\<close>

definition slice_arr :: "'a list \<Rightarrow> nat \<Rightarrow> nat \<Rightarrow> 'a list" where
  "slice_arr arr start end' = take (end' - start) (drop start arr)"

text \<open>
  \<open>freqs.reduce((s, v) => s + v, 0) / (freqs.length * 255)\<close>. The sum is a JavaScript
  number, so it does not wrap. On an empty slice this is \<open>0 / 0\<close>, which is \<open>NaN\<close>.
\<close>

definition bandAverage :: "8 word list \<Rightarrow> jsnum" where
  "bandAverage freqs =
     (if freqs = [] then NaN
      else Fin (real (sum_list (map unat freqs)) / (real (length freqs) * 255)))"

text \<open>
  The bass and treble averages of the animation loop. \<open>slice\<close> truncates its bounds
  \<open>binCount * 0.1\<close>, \<open>binCount * 0.4\<close> and \<open>binCount * 0.8\<close> to integers; for every
  bin count an analyser can have, the truncated products are \<open>binCount div 10\<close>,
  \<open>binCount * 4 div 10\<close> and \<open>binCount * 8 div 10\<close>.
\<close>

definition sampleBands :: "8 word list \<Rightarrow> nat \<Rightarrow> jsnum \<times> jsnum" where
  "sampleBands freqData binCount =
     (let bassFreqs = slice_arr freqData 0 (binCount div 10);
          trebleFreqs = slice_arr freqData (binCount * 4 div 10) (binCount * 8 div 10)
      in (bandAverage bassFreqs, bandAverage trebleFreqs))"

section \<open>The scene and one tick of the animation loop\<close>

text \<open>The controls the modelled part of the loop reads.\<close>

record NeogenesisProps =
  isAudioReactive :: bool
  bassSensitivity :: real
  trebleSensitivity :: real
  recursionDepth :: int
  fractalWireframe :: bool
  particleDistributionRadius :: real
  fractalWaveAmplitude :: real
  fractalWaveSmoothing :: real

text \<open>
  The state the hook keeps between ticks, as far as the fractal's and the particles'
  buffers depend on it: the geometry the three meshes of \<open>fractalGroupRef\<close> share
  (\<open>None\<close> while the ref is null), \<open>originalFractalPositionsRef\<close>,
  \<open>lastWireframeStateRef\<close>, the geometry of \<open>particleSystemRef\<close>, the uniforms
  \<open>uBass\<close> and \<open>uTreble\<close> of the particle material, and the audio processor of
  \<open>audioProcessorRef\<close>. Materials, rotations, scales and the camera are left out:
  the loop updates them without reading or writing any of these buffers.
\<close>

record Scene =
  fractalGroup :: "BufferGeometry option"
  originalFractalPositions :: "jsnum list option"
  lastWireframeState :: bool
  particleSystem :: "BufferGeometry option"
  uBass :: jsnum
  uTreble :: jsnum
  audioProcessor :: "AudioProcessor option"

text \<open>\<open>THREE.MathUtils.lerp(x, y, t)\<close> and \<open>Vector3.lerp(v, alpha)\<close>, as three.js computes them.\<close>

definition lerp :: "jsnum \<Rightarrow> jsnum \<Rightarrow> jsnum \<Rightarrow> jsnum" where
  "lerp p q t = (Fin 1 - t) * p + t * q"

definition lerp_v3 :: "Vector3 \<Rightarrow> Vector3 \<Rightarrow> jsnum \<Rightarrow> Vector3" where
  "lerp_v3 cur v alpha =
     Vector3 (vx cur + (vx v - vx cur) * alpha)
             (vy cur + (vy v - vy cur) * alpha)
             (vz cur + (vz v - vz cur) * alpha)"

text \<open>\<open>posAttr.setXYZ(i, x, y, z)\<close>: a store beyond the end of a typed array is ignored.\<close>

definition setXYZ :: "jsnum list \<Rightarrow> nat \<Rightarrow> Vector3 \<Rightarrow> jsnum list" where
  "setXYZ arr i v = arr[i * 3 := vx v, i * 3 + 1 := vy v, i * 3 + 2 := vz v]"

text \<open>
  The audio block at the head of \<open>animate\<close>: the frequency data (\<open>null\<close> unless there
  is an audio processor and the visuals are audio reactive), the two averages, and the
  audio processor with its array updated.
\<close>

definition sampleAudio ::
  "AudioProcessor option \<Rightarrow> NeogenesisProps \<Rightarrow> 8 word list
     \<Rightarrow> 8 word list option \<times> jsnum \<times> jsnum \<times> AudioProcessor option" where
  "sampleAudio audio currentProps analyserBytes =
     (case audio of
        None \<Rightarrow> (None, Fin 0, Fin 0, None)
      | Some ap \<Rightarrow>
          if isAudioReactive currentProps then
            let ap' = updateFrequencyData analyserBytes ap;
                freqData = frequencyData ap';
                (bassAvg, trebleAvg) = sampleBands freqData (frequencyBinCount ap')
            in (Some freqData, bassAvg, trebleAvg, Some ap')
          else (None, Fin 0, Fin 0, Some ap))"

text \<open>
  The body of the loop over the vertices in wireframe mode, for vertex \<open>i\<close>.
  With an empty \<open>freqData\<close> the index \<open>i % 0\<close> is \<open>NaN\<close> and the value read is
  undefined.
\<close>

definition deformVertex ::
  "8 word list \<Rightarrow> NeogenesisProps \<Rightarrow> jsnum \<Rightarrow> jsnum list \<Rightarrow> jsnum list
     \<Rightarrow> nat \<Rightarrow> jsnum list \<Rightarrow> jsnum list" where
  "deformVertex freqData currentProps smoothedBass originalPositions normals i posArr =
     (let binCount = length freqData;
          freqValue = (if binCount = 0 then NaN
                       else Fin (real (unat (freqData ! (i mod binCount))) / 255));
          displacement = freqValue * Fin (fractalWaveAmplitude currentProps) * (Fin 1 + smoothedBass);
          ox = rd originalPositions (i * 3);
          oy = rd originalPositions (i * 3 + 1);
          oz = rd originalPositions (i * 3 + 2);
          nx = rd normals (i * 3);
          ny = rd normals (i * 3 + 1);
          nz = rd normals (i * 3 + 2);
          targetPos = Vector3 (ox + nx * displacement) (oy + ny * displacement) (oz + nz * displacement);
          currentPos = Vector3 (rd posArr (i * 3)) (rd posArr (i * 3 + 1)) (rd posArr (i * 3 + 2))
      in setXYZ posArr i (lerp_v3 currentPos targetPos (Fin (fractalWaveSmoothing currentProps))))"

text \<open>
  \<open>for (let i = 0; i < posAttr.count; i++)\<close>: the count is a third of the length of
  the array, so the loop makes \<open>\<lceil>length / 3\<rceil>\<close> passes, in order.
\<close>

definition deformLoop ::
  "8 word list \<Rightarrow> NeogenesisProps \<Rightarrow> jsnum \<Rightarrow> jsnum list \<Rightarrow> jsnum list
     \<Rightarrow> jsnum list \<Rightarrow> jsnum list" where
  "deformLoop freqData currentProps smoothedBass originalPositions normals posArr =
     fold (deformVertex freqData currentProps smoothedBass originalPositions normals)
       [0 ..< (length posArr + 2) div 3] posArr"

text \<open>
  \<open>posAttr.array.set(originalPositions)\<close>: a \<open>RangeError\<close> when the source is longer
  than the target, else the source copied over the front of the target.
\<close>

definition typedArraySet :: "jsnum list \<Rightarrow> jsnum list \<Rightarrow> error + jsnum list" where
  "typedArraySet target source =
     (if length target < length source then Inl RangeError
      else Inr (source @ drop (length source) target))"

text \<open>
  The update of the shared fractal geometry in \<open>animate\<close>: the displacement in
  wireframe mode, the restore on the first tick out of it. A geometry without a
  position attribute raises a \<open>TypeError\<close> where \<open>posAttr.count\<close> or
  \<open>posAttr.array\<close> is read.
\<close>

definition updateFractalGeometry ::
  "NeogenesisProps \<Rightarrow> AudioProcessor option \<Rightarrow> 8 word list option \<Rightarrow> jsnum
     \<Rightarrow> jsnum list option \<Rightarrow> bool \<Rightarrow> BufferGeometry \<Rightarrow> error + BufferGeometry" where
  "updateFractalGeometry currentProps audio freqData smoothedBass originalPositions lastWireframe fractalGeo =
     (if fractalWireframe currentProps then
        (case (audio, freqData, originalPositions, attributes fractalGeo ''normal'') of
           (Some _, Some fd, Some orig, Some normals) \<Rightarrow>
             (case attributes fractalGeo ''position'' of
                None \<Rightarrow> Inl TypeError
              | Some posArr \<Rightarrow>
                  Inr (setAttribute fractalGeo ''position''
                         (Some (deformLoop fd currentProps smoothedBass orig normals posArr))))
         | _ \<Rightarrow> Inr fractalGeo)
      else if lastWireframe then
        (case originalPositions of
           None \<Rightarrow> Inr fractalGeo
         | Some orig \<Rightarrow>
             (case attributes fractalGeo ''position'' of
                None \<Rightarrow> Inl TypeError
              | Some posArr \<Rightarrow>
                  (case typedArraySet posArr orig of
                     Inl e \<Rightarrow> Inl e
                   | Inr posArr' \<Rightarrow> Inr (setAttribute fractalGeo ''position'' (Some posArr')))))
      else Inr fractalGeo)"

text \<open>The uniforms of the particle material, written when there is a particle system.\<close>

definition updateParticleUniforms :: "jsnum \<Rightarrow> jsnum \<Rightarrow> Scene \<Rightarrow> Scene" where
  "updateParticleUniforms smoothedBass smoothedTreble s =
     (case particleSystem s of
        None \<Rightarrow> s
      | Some _ \<Rightarrow> s\<lparr>uBass := smoothedBass, uTreble := smoothedTreble\<rparr>)"

text \<open>
  One call of \<open>animate\<close>. The result is the exception the tick ended with, if any, and
  the scene as the tick left it: an exception leaves the scene as it was when it was
  raised, and the next frame is already requested.
\<close>

definition animate :: "Scene \<Rightarrow> NeogenesisProps \<Rightarrow> 8 word list \<Rightarrow> error option \<times> Scene" where
  "animate s currentProps analyserBytes =
     (let (freqData, bassAvg, trebleAvg, audio') =
            sampleAudio (audioProcessor s) currentProps analyserBytes;
          s1 = s\<lparr>audioProcessor := audio'\<rparr>;
          smoothedBass = lerp (uBass s) (bassAvg * Fin (bassSensitivity currentProps)) (Fin 0.1);
          smoothedTreble = lerp (uTreble s) (trebleAvg * Fin (trebleSensitivity currentProps)) (Fin 0.1)
      in case fractalGroup s of
           None \<Rightarrow> (None, updateParticleUniforms smoothedBass smoothedTreble s1)
         | Some fractalGeo \<Rightarrow>
             (case updateFractalGeometry currentProps audio' freqData smoothedBass
                     (originalFractalPositions s) (lastWireframeState s) fractalGeo of
                Inl e \<Rightarrow> (Some e, s1)
              | Inr fractalGeo' \<Rightarrow>
                  (None, updateParticleUniforms smoothedBass smoothedTreble
                     (s1\<lparr>fractalGroup := Some fractalGeo',
                         lastWireframeState := fractalWireframe currentProps\<rparr>))))"

text \<open>The frames of a run, in order; each tick starts from the scene the last one left.\<close>

fun animateAll :: "Scene \<Rightarrow> (NeogenesisProps \<times> 8 word list) list \<Rightarrow> Scene" where
  "animateAll s [] = s"
| "animateAll s ((currentProps, analyserBytes) # frames) =
     animateAll (snd (animate s currentProps analyserBytes)) frames"

section \<open>Regeneration on a change of the controls\<close>

text \<open>
  The effect on \<open>recursionDepth\<close>: a new fractal geometry from the base geometry (the
  icosahedron three.js builds, a parameter here), a fresh copy of its positions as the
  resting positions, and the new geometry in every mesh of the group. Reading the
  position array of a geometry without one raises a \<open>TypeError\<close> before anything is
  assigned. The set-up effect makes the same two assignments when the scene is built.
\<close>

definition regenerateFractal ::
  "three_js \<Rightarrow> BufferGeometry \<Rightarrow> int \<Rightarrow> Scene \<Rightarrow> error option \<times> Scene" where
  "regenerateFractal three baseGeo depth s =
     (case fractalGroup s of
        None \<Rightarrow> (None, s)
      | Some oldGeo \<Rightarrow>
          (case createNeogenesisFractal three baseGeo depth of
             Inl e \<Rightarrow> (Some e, s)
           | Inr newFractalGeo \<Rightarrow>
               (case attributes newFractalGeo ''position'' of
                  None \<Rightarrow> (Some TypeError, s)
                | Some arr \<Rightarrow>
                    (None, s\<lparr>originalFractalPositions := Some arr,
                              fractalGroup := Some newFractalGeo\<rparr>))))"

text \<open>
  \<open>createParticleGeometry\<close>. \<open>Math.random\<close> is an input of the model: \<open>rnd k\<close> is
  the value of the \<open>k\<close>-th call, and particle \<open>i\<close> makes the calls \<open>3 * i\<close>,
  \<open>3 * i + 1\<close> and \<open>3 * i + 2\<close>, for \<open>u\<close>, \<open>v\<close> and the radial draw. \<open>Math.acos\<close>
  is \<open>NaN\<close> outside \<open>[-1, 1]\<close>, and then so are all three coordinates.
\<close>

definition particlePosition :: "real \<Rightarrow> real \<Rightarrow> real \<Rightarrow> real \<Rightarrow> jsnum list" where
  "particlePosition radius u v w =
     (if 2 * v - 1 < -1 \<or> 1 < 2 * v - 1 then [NaN, NaN, NaN]
      else
        let theta = 2 * pi * u;
            phi = arccos (2 * v - 1);
            r = radius * root 3 w
        in [Fin (r * sin phi * cos theta), Fin (r * sin phi * sin theta), Fin (r * cos phi)])"

definition particleAt :: "real \<Rightarrow> (nat \<Rightarrow> real) \<Rightarrow> nat \<Rightarrow> jsnum list" where
  "particleAt radius rnd i =
     particlePosition radius (rnd (3 * i)) (rnd (3 * i + 1)) (rnd (3 * i + 2))"

definition createParticleGeometry :: "nat \<Rightarrow> real \<Rightarrow> (nat \<Rightarrow> real) \<Rightarrow> BufferGeometry" where
  "createParticleGeometry count radius rnd =
     (let positions = concat (map (particleAt radius rnd) [0 ..< count]);
          initialPositions = positions
      in setAttribute (setAttribute emptyGeometry ''position'' (Some positions))
           ''initialPosition'' (Some initialPositions))"

definition PARTICLE_COUNT :: nat where
  "PARTICLE_COUNT = 20000"

text \<open>
  The effect on \<open>particleDistributionRadius\<close>: a new particle geometry, with the
  \<open>color\<close>, \<open>size\<close> and \<open>random\<close> attributes of the old one set on it.
\<close>

definition regenerateParticles :: "real \<Rightarrow> (nat \<Rightarrow> real) \<Rightarrow> Scene \<Rightarrow> Scene" where
  "regenerateParticles radius rnd s =
     (case particleSystem s of
        None \<Rightarrow> s
      | Some oldGeo \<Rightarrow>
          let newParticleGeo = createParticleGeometry PARTICLE_COUNT radius rnd;
              g1 = setAttribute newParticleGeo ''color'' (attributes oldGeo ''color'');
              g2 = setAttribute g1 ''size'' (attributes oldGeo ''size'');
              g3 = setAttribute g2 ''random'' (attributes oldGeo ''random'')
          in s\<lparr>particleSystem := Some g3\<rparr>)"

text \<open>The distance from the origin of the vertex (or particle) \<open>i\<close> of a flat array.\<close>

definition magnitude :: "jsnum list \<Rightarrow> nat \<Rightarrow> jsnum" where
  "magnitude arr i = length_v3 (fromBufferAttribute arr (Some i))"

section \<open>Observations and the words of the specification\<close>

text \<open>What a scene shows of its buffers.\<close>

definition fractalPositions :: "Scene \<Rightarrow> jsnum list option" where
  "fractalPositions s =
     (case fractalGroup s of None \<Rightarrow> None | Some g \<Rightarrow> attributes g ''position'')"

definition fractalNormals :: "Scene \<Rightarrow> jsnum list option" where
  "fractalNormals s =
     (case fractalGroup s of None \<Rightarrow> None | Some g \<Rightarrow> attributes g ''normal'')"

definition particleAttribute :: "Scene \<Rightarrow> string \<Rightarrow> jsnum list option" where
  "particleAttribute s name =
     (case particleSystem s of None \<Rightarrow> None | Some g \<Rightarrow> attributes g name)"

definition particleMagnitude :: "Scene \<Rightarrow> nat \<Rightarrow> jsnum" where
  "particleMagnitude s i =
     (case particleAttribute s ''position'' of None \<Rightarrow> NaN | Some arr \<Rightarrow> magnitude arr i)"

text \<open>The number at place \<open>j\<close> of the fractal's position array.\<close>

definition fractalCoordinate :: "Scene \<Rightarrow> nat \<Rightarrow> jsnum" where
  "fractalCoordinate s j = (case fractalPositions s of None \<Rightarrow> NaN | Some arr \<Rightarrow> rd arr j)"

text \<open>
  The resting positions are captured for the geometry shown: both arrays are there and
  have the same length.
\<close>

definition restingCaptured :: "Scene \<Rightarrow> bool" where
  "restingCaptured s =
     (case (originalFractalPositions s, fractalPositions s) of
        (Some orig, Some posArr) \<Rightarrow> length orig = length posArr
      | _ \<Rightarrow> False)"

text \<open>
  The specification's words for the band averages and for the displacement, to compare
  the code with: the mean of the magnitudes, each divided by 255; the frequency value
  of vertex \<open>i\<close>, tiled over the frame; the target displacement; and \<open>smooth\<close>, the
  move of a current value towards a target by a rate.
\<close>

definition spec_meanNormalized :: "8 word list \<Rightarrow> real" where
  "spec_meanNormalized freqs = (\<Sum>v\<leftarrow>freqs. real (unat v) / 255) / real (length freqs)"

text \<open>
  The specification's bands, read as they are written: the bins whose index lies in the
  interval \<open>[lo * n, hi * n)\<close>, and the mean of the normalised magnitudes over them.
\<close>

definition spec_binsIn :: "real \<Rightarrow> real \<Rightarrow> nat \<Rightarrow> nat list" where
  "spec_binsIn lo hi n = filter (\<lambda>i. lo * real n \<le> real i \<and> real i < hi * real n) [0 ..< n]"

definition spec_bandMean :: "8 word list \<Rightarrow> real \<Rightarrow> real \<Rightarrow> real" where
  "spec_bandMean frame lo hi =
     spec_meanNormalized (map ((!) frame) (spec_binsIn lo hi (length frame)))"

definition spec_freqValue :: "8 word list \<Rightarrow> nat \<Rightarrow> jsnum" where
  "spec_freqValue frame i = Fin (real (unat (frame ! (i mod length frame))) / 255)"

definition spec_targetDisplacement :: "8 word list \<Rightarrow> real \<Rightarrow> jsnum \<Rightarrow> nat \<Rightarrow> jsnum" where
  "spec_targetDisplacement frame waveAmplitude smoothedBass i =
     spec_freqValue frame i * Fin waveAmplitude * (Fin 1 + smoothedBass)"

definition spec_smooth :: "jsnum \<Rightarrow> jsnum \<Rightarrow> jsnum \<Rightarrow> jsnum" where
  "spec_smooth current target rate = current + (target - current) * rate"

section \<open>A small scene\<close>

text \<open>
  Concrete values the properties below are tried on: a geometry of one triangle with
  its vertices on the unit sphere and radial normals, an analyser of 16 bins, and two
  sequences of random draws.
\<close>

definition example_three :: three_js where
  "example_three =
     \<lparr>mergeGeometries = (\<lambda>geometries. None),
      mergeVertices = (\<lambda>geometry. geometry),
      computeVertexNormals = (\<lambda>geometry. geometry)\<rparr>"

definition example_array :: "jsnum list" where
  "example_array = [Fin 1, Fin 0, Fin 0, Fin 0, Fin 1, Fin 0, Fin 0, Fin 0, Fin 1]"

definition example_geometry :: BufferGeometry where
  "example_geometry =
     setAttribute (setAttribute emptyGeometry ''position'' (Some example_array))
       ''normal'' (Some example_array)"

definition example_displaced :: BufferGeometry where
  "example_displaced =
     setAttribute example_geometry ''position''
       (Some [Fin 2, Fin 0, Fin 0, Fin 0, Fin 2, Fin 0, Fin 0, Fin 0, Fin 2])"

definition example_audio :: AudioProcessor where
  "example_audio = \<lparr>isInitialized = True, frequencyData = replicate 16 0, frequencyBinCount = 16\<rparr>"

definition example_bytes :: "8 word list" where
  "example_bytes = replicate 16 255"

definition example_props :: NeogenesisProps where
  "example_props =
     \<lparr>isAudioReactive = True, bassSensitivity = 1, trebleSensitivity = 1, recursionDepth = 0,
      fractalWireframe = True, particleDistributionRadius = 10,
      fractalWaveAmplitude = 1 / 4, fractalWaveSmoothing = 1 / 10\<rparr>"

definition example_scene :: Scene where
  "example_scene =
     \<lparr>fractalGroup = Some example_geometry, originalFractalPositions = Some example_array,
      lastWireframeState = True, particleSystem = None, uBass = Fin 0, uTreble = Fin 0,
      audioProcessor = Some example_audio\<rparr>"

text \<open>
  The same scene displaced, with an audio processor that no source was connected to; and
  a frame of 16 bins, silent but for bin 1.
\<close>

definition example_uninitialised :: Scene where
  "example_uninitialised =
     example_scene\<lparr>fractalGroup := Some example_displaced,
                   audioProcessor := Some (example_audio\<lparr>isInitialized := False\<rparr>)\<rparr>"

definition example_spike :: "8 word list" where
  "example_spike = 0 # 255 # replicate 14 0"

definition draws_before :: "nat \<Rightarrow> real" where
  "draws_before k = (if k = 1 then 1 / 2 else if k = 2 then 1 / 8 else 0)"

definition draws_after :: "nat \<Rightarrow> real" where
  "draws_after k = (if k = 1 then 1 / 2 else if k = 2 then 1 / 1000 else 0)"

text \<open>
  The particle system as the set-up builds it for radius 10 with the first draws, with
  its \<open>color\<close>, \<open>size\<close> and \<open>random\<close> attributes set.
\<close>

definition particles_before :: BufferGeometry where
  "particles_before =
     setAttribute (setAttribute (setAttribute
       (createParticleGeometry PARTICLE_COUNT 10 draws_before)
       ''color'' (Some (replicate (3 * PARTICLE_COUNT) (Fin 1))))
       ''size'' (Some (replicate PARTICLE_COUNT (Fin 2))))
       ''random'' (Some (replicate PARTICLE_COUNT (Fin (1 / 2))))"

definition scene_before :: Scene where
  "scene_before = example_scene\<lparr>particleSystem := Some particles_before\<rparr>"

section \<open>Properties of the subdivision\<close>

lemma length_subdivideStep: "length (subdivideStep tris) = 3 * length tris"
  by (induction tris) (simp_all add: subdivideStep_def subdivideTriangle_def)

lemma length_subdivide: "length (subdivide d tris) = length tris * 3 ^ d"
  by (induction d arbitrary: tris) (simp_all add: length_subdivideStep)

lemma subdivideStep_Cons:
  "subdivideStep (tri # tris) = subdivideTriangle tri @ subdivideStep tris"
  by (simp add: subdivideStep_def)

lemma subdivide_funpow: "subdivide d tris = (subdivideStep ^^ d) tris"
  by (induction d arbitrary: tris) (simp_all add: funpow_swap1)

lemma subdivide_Suc_outer: "subdivide (Suc d) tris = subdivideStep (subdivide d tris)"
  by (simp add: subdivide_funpow del: subdivide.simps)

text \<open>
  C1. One pass replaces every triangle \<open>(a, b, c)\<close>, in the order of the list, by
  exactly the three triangles \<open>(a, m12, m31)\<close>, \<open>(b, m23, m12)\<close>, \<open>(c, m31, m23)\<close> in
  this order, where \<open>m12\<close>, \<open>m23\<close> and \<open>m31\<close> are the midpoints of \<open>ab\<close>, \<open>bc\<close> and
  \<open>ca\<close> projected to the distance of \<open>a\<close>: three children per triangle, so the centre
  triangle \<open>(m12, m23, m31)\<close> is not among the triangles pushed. The output at depth
  \<open>d\<close> is this pass made \<open>d\<close> times: depth 0 leaves the list as it is, each further
  level is one more pass over the output of the level before, and one triangle at depth
  1 gives its three children and nothing else. So after \<open>d\<close> passes over \<open>n\<close>
  triangles the list holds \<open>n * 3 ^ d\<close> triangles.
\<close>

theorem subdivide_three_children:
  "subdivideStep (Triangle p q r # tris) =
     [Triangle p (m12 (Triangle p q r)) (m31 (Triangle p q r)),
      Triangle q (m23 (Triangle p q r)) (m12 (Triangle p q r)),
      Triangle r (m31 (Triangle p q r)) (m23 (Triangle p q r))] @ subdivideStep tris
   \<and> subdivideStep [] = []
   \<and> m12 (Triangle p q r) = project (midpoint p q) (length_v3 p)
   \<and> m23 (Triangle p q r) = project (midpoint q r) (length_v3 p)
   \<and> m31 (Triangle p q r) = project (midpoint r p) (length_v3 p)
   \<and> subdivide 0 tris = tris
   \<and> subdivide (Suc d) tris = subdivideStep (subdivide d tris)
   \<and> subdivide d tris = (subdivideStep ^^ d) tris
   \<and> subdivide 1 [Triangle p q r] =
        [Triangle p (m12 (Triangle p q r)) (m31 (Triangle p q r)),
         Triangle q (m23 (Triangle p q r)) (m12 (Triangle p q r)),
         Triangle r (m31 (Triangle p q r)) (m23 (Triangle p q r))]
   \<and> length (subdivideStep tris) = 3 * length tris
   \<and> length (subdivide d tris) = length tris * 3 ^ d"
proof (intro conjI)
  show step: "subdivideStep (Triangle p q r # tris) =
     [Triangle p (m12 (Triangle p q r)) (m31 (Triangle p q r)),
      Triangle q (m23 (Triangle p q r)) (m12 (Triangle p q r)),
      Triangle r (m31 (Triangle p q r)) (m23 (Triangle p q r))] @ subdivideStep tris"
    by (simp add: subdivideStep_Cons subdivideTriangle_def)
  show nil: "subdivideStep [] = []"
    by (simp add: subdivideStep_def)
  show "m12 (Triangle p q r) = project (midpoint p q) (length_v3 p)"
    by (simp add: m12_def)
  show "m23 (Triangle p q r) = project (midpoint q r) (length_v3 p)"
    by (simp add: m23_def)
  show "m31 (Triangle p q r) = project (midpoint r p) (length_v3 p)"
    by (simp add: m31_def)
  show "subdivide 0 tris = tris"
    by simp
  show "subdivide (Suc d) tris = subdivideStep (subdivide d tris)"
    by (rule subdivide_Suc_outer)
  show "subdivide d tris = (subdivideStep ^^ d) tris"
    by (rule subdivide_funpow)
  show "subdivide 1 [Triangle p q r] =
        [Triangle p (m12 (Triangle p q r)) (m31 (Triangle p q r)),
         Triangle q (m23 (Triangle p q r)) (m12 (Triangle p q r)),
         Triangle r (m31 (Triangle p q r)) (m23 (Triangle p q r))]"
    by (simp add: subdivideStep_def subdivideTriangle_def)
  show "length (subdivideStep tris) = 3 * length tris"
    by (rule length_subdivideStep)
  show "length (subdivide d tris) = length tris * 3 ^ d"
    by (rule length_subdivide)
qed

section \<open>The projection of the midpoints\<close>

lemma length_Fin:
  "length_v3 (Vector3 (Fin x) (Fin y) (Fin z)) = Fin (sqrt (x * x + y * y + z * z))"
  by (simp add: length_v3_def not_less)

lemma length_vec: "length_v3 (vec x y z) = Fin (sqrt (x * x + y * y + z * z))"
  by (simp add: vec_def length_Fin)

lemma sum_squares_zero:
  "x * x + y * y + z * z = 0 \<longleftrightarrow> x = 0 \<and> y = 0 \<and> z = (0::real)"
proof -
  have "x * x + y * y + z * z = x\<^sup>2 + y\<^sup>2 + z\<^sup>2"
    by (simp add: power2_eq_square)
  then show ?thesis
    by (simp add: add_nonneg_eq_0_iff)
qed

lemma vec_origin: "vec x y z = origin \<longleftrightarrow> x = 0 \<and> y = 0 \<and> z = 0"
  by (simp add: vec_def origin_def)

lemma length_origin_iff: "length_v3 (vec x y z) = length_v3 origin \<longleftrightarrow> vec x y z = origin"
  by (simp add: length_vec vec_origin sum_squares_zero)
     (simp add: origin_def length_Fin sum_squares_zero)

lemma midpoint_vec:
  "midpoint (vec x y z) (vec x' y' z') =
     vec ((x + x') * 0.5) ((y + y') * 0.5) ((z + z') * 0.5)"
  by (simp add: midpoint_def addVectors_def multiplyScalar_def vec_def)

lemma project_origin: "project origin (Fin \<rho>) = origin"
  by (simp add: project_def normalize_def multiplyScalar_def length_v3_def origin_def)

text \<open>A vector other than the origin, normalised and scaled, has the length it was scaled by.\<close>

lemma project_length:
  assumes "vec x y z \<noteq> origin" and "0 \<le> \<rho>"
  shows "length_v3 (project (vec x y z) (Fin \<rho>)) = Fin \<rho>"
proof -
  define l where "l = sqrt (x * x + y * y + z * z)"
  have nz: "x * x + y * y + z * z \<noteq> 0"
    using assms(1) by (simp add: sum_squares_zero vec_origin)
  have nn: "0 \<le> x * x + y * y + z * z"
    by simp
  have lpos: "0 < l"
    using nz nn by (simp add: l_def less_le)
  have l2: "l * l = x * x + y * y + z * z"
    using nn by (simp add: l_def)
  have "or_one (length_v3 (vec x y z)) = l"
    using lpos by (simp add: length_vec l_def)
  then have pr: "project (vec x y z) (Fin \<rho>) =
      vec (x * (1 / l) * \<rho>) (y * (1 / l) * \<rho>) (z * (1 / l) * \<rho>)"
    by (simp add: project_def normalize_def) (simp add: multiplyScalar_def vec_def)
  have "(x * (1 / l) * \<rho>) * (x * (1 / l) * \<rho>) + (y * (1 / l) * \<rho>) * (y * (1 / l) * \<rho>)
        + (z * (1 / l) * \<rho>) * (z * (1 / l) * \<rho>)
      = (x * x + y * y + z * z) * (\<rho> * \<rho>) / (l * l)"
    using lpos by (simp add: field_simps)
  also have "\<dots> = \<rho> * \<rho>"
    using l2 nz by simp
  finally show ?thesis
    using assms(2) by (simp add: pr length_vec)
qed

lemma projected_midpoint_length:
  "length_v3 (project (midpoint (vec x y z) (vec x' y' z')) (length_v3 (vec p q r)))
     = length_v3 (vec p q r)
   \<longleftrightarrow> midpoint (vec x y z) (vec x' y' z') \<noteq> origin \<or> vec p q r = origin"
proof (cases "midpoint (vec x y z) (vec x' y' z') = origin")
  case True
  have "length_v3 (project origin (length_v3 (vec p q r))) = length_v3 origin"
    by (simp add: length_vec project_origin)
  moreover have "length_v3 origin = length_v3 (vec p q r) \<longleftrightarrow> vec p q r = origin"
    using length_origin_iff[of p q r] by auto
  ultimately show ?thesis
    using True by simp
next
  case False
  then show ?thesis
    using project_length[of "(x + x') * 0.5" "(y + y') * 0.5" "(z + z') * 0.5"
        "sqrt (p * p + q * q + r * r)"]
    by (simp add: midpoint_vec length_vec)
qed

lemma finite_v3_vec: "finite_v3 p \<Longrightarrow> \<exists>x y z. p = vec x y z"
proof -
  assume f: "finite_v3 p"
  obtain u v w where p: "p = Vector3 u v w"
    by (cases p)
  from f p obtain x where "u = Fin x"
    by (cases u) (simp_all add: finite_v3_def)
  moreover from f p obtain y where "v = Fin y"
    by (cases v) (simp_all add: finite_v3_def)
  moreover from f p obtain z where "w = Fin z"
    by (cases w) (simp_all add: finite_v3_def)
  ultimately show ?thesis
    using p by (auto simp: vec_def)
qed

lemma project_origin_finite: "finite_v3 p \<Longrightarrow> project origin (length_v3 p) = origin"
proof -
  assume "finite_v3 p"
  then obtain x y z where "p = vec x y z"
    using finite_v3_vec by blast
  then show ?thesis
    by (simp add: length_vec project_origin)
qed

text \<open>
  C2, as the code has it, in exact arithmetic (the rounding of the code's numbers left
  aside). For a triangle \<open>(a, b, c)\<close> with finite coordinates, a projected midpoint
  lies at the distance of the first vertex \<open>a\<close> from the origin exactly when the
  midpoint before the projection is not the origin, or \<open>a\<close> itself is the origin. The
  midpoint of two opposite points is the origin, and a midpoint at the origin stays at
  the origin: \<open>normalize\<close> leaves the origin where it is, and so does the scaling.
\<close>

theorem midpoints_on_sphere_of_first_vertex:
  assumes "finite_v3 a" and "finite_v3 b" and "finite_v3 c"
  shows "(length_v3 (m12 (Triangle a b c)) = length_v3 a
            \<longleftrightarrow> midpoint a b \<noteq> origin \<or> a = origin)
       \<and> (length_v3 (m23 (Triangle a b c)) = length_v3 a
            \<longleftrightarrow> midpoint b c \<noteq> origin \<or> a = origin)
       \<and> (length_v3 (m31 (Triangle a b c)) = length_v3 a
            \<longleftrightarrow> midpoint c a \<noteq> origin \<or> a = origin)
       \<and> (midpoint a b = origin \<longrightarrow> m12 (Triangle a b c) = origin)
       \<and> (midpoint b c = origin \<longrightarrow> m23 (Triangle a b c) = origin)
       \<and> (midpoint c a = origin \<longrightarrow> m31 (Triangle a b c) = origin)"
proof -
  obtain a1 a2 a3 where a: "a = vec a1 a2 a3"
    using finite_v3_vec[OF assms(1)] by blast
  obtain b1 b2 b3 where b: "b = vec b1 b2 b3"
    using finite_v3_vec[OF assms(2)] by blast
  obtain c1 c2 c3 where c: "c = vec c1 c2 c3"
    using finite_v3_vec[OF assms(3)] by blast
  have lengths: "(length_v3 (m12 (Triangle a b c)) = length_v3 a
            \<longleftrightarrow> midpoint a b \<noteq> origin \<or> a = origin)
       \<and> (length_v3 (m23 (Triangle a b c)) = length_v3 a
            \<longleftrightarrow> midpoint b c \<noteq> origin \<or> a = origin)
       \<and> (length_v3 (m31 (Triangle a b c)) = length_v3 a
            \<longleftrightarrow> midpoint c a \<noteq> origin \<or> a = origin)"
    unfolding a b c by (simp add: m12_def m23_def m31_def projected_midpoint_length)
  have stays: "(midpoint a b = origin \<longrightarrow> m12 (Triangle a b c) = origin)
       \<and> (midpoint b c = origin \<longrightarrow> m23 (Triangle a b c) = origin)
       \<and> (midpoint c a = origin \<longrightarrow> m31 (Triangle a b c) = origin)"
    by (simp add: m12_def m23_def m31_def project_origin_finite[OF assms(1)])
  show ?thesis
    using lengths stays by blast
qed

theorem midpoints_on_sphere_witness:
  "finite_v3 (vec 1 0 0) \<and> finite_v3 (vec 0 1 0) \<and> finite_v3 (vec 0 0 1)
   \<and> midpoint (vec 1 0 0) (vec 0 1 0) \<noteq> origin
   \<and> midpoint (vec 0 1 0) (vec 0 0 1) \<noteq> origin
   \<and> midpoint (vec 0 0 1) (vec 1 0 0) \<noteq> origin
   \<and> length_v3 (m12 (Triangle (vec 1 0 0) (vec 0 1 0) (vec 0 0 1))) = length_v3 (vec 1 0 0)
   \<and> length_v3 (m23 (Triangle (vec 1 0 0) (vec 0 1 0) (vec 0 0 1))) = length_v3 (vec 1 0 0)
   \<and> length_v3 (m31 (Triangle (vec 1 0 0) (vec 0 1 0) (vec 0 0 1))) = length_v3 (vec 1 0 0)
   \<and> finite_v3 (vec (-1) 0 0)
   \<and> midpoint (vec 1 0 0) (vec (-1) 0 0) = origin
   \<and> m12 (Triangle (vec 1 0 0) (vec (-1) 0 0) (vec 0 1 0)) = origin"
proof -
  have f: "finite_v3 (vec 1 0 0)" "finite_v3 (vec 0 1 0)" "finite_v3 (vec 0 0 1)"
    by (simp_all add: finite_v3_def vec_def)
  have g: "finite_v3 (vec 1 0 0)" "finite_v3 (vec (-1) 0 0)" "finite_v3 (vec 0 1 0)"
    by (simp_all add: finite_v3_def vec_def)
  have m: "midpoint (vec 1 0 0) (vec 0 1 0) \<noteq> origin"
      "midpoint (vec 0 1 0) (vec 0 0 1) \<noteq> origin"
      "midpoint (vec 0 0 1) (vec 1 0 0) \<noteq> origin"
    by (simp_all add: midpoint_vec vec_origin)
  have z: "midpoint (vec 1 0 0) (vec (-1) 0 0) = origin"
    by (simp add: midpoint_vec vec_origin)
  have on: "length_v3 (m12 (Triangle (vec 1 0 0) (vec 0 1 0) (vec 0 0 1))) = length_v3 (vec 1 0 0)
      \<and> length_v3 (m23 (Triangle (vec 1 0 0) (vec 0 1 0) (vec 0 0 1))) = length_v3 (vec 1 0 0)
      \<and> length_v3 (m31 (Triangle (vec 1 0 0) (vec 0 1 0) (vec 0 0 1))) = length_v3 (vec 1 0 0)"
    using m midpoints_on_sphere_of_first_vertex[OF f] by simp
  have "m12 (Triangle (vec 1 0 0) (vec (-1) 0 0) (vec 0 1 0)) = origin"
    using z midpoints_on_sphere_of_first_vertex[OF g] by blast
  then show ?thesis
    using f g(2) m z on by simp
qed

text \<open>
  The claim as the specification states it, for every triangle, fails on an edge whose
  ends are opposite: the midpoint of \<open>(1, 0, 0)\<close> and \<open>(-1, 0, 0)\<close> stays at the
  origin, at distance 0, while the first vertex is at distance 1.
\<close>

theorem midpoint_of_opposite_vertices_counterexample:
  "length_v3 (m12 (Triangle (vec 1 0 0) (vec (-1) 0 0) (vec 0 1 0))) = Fin 0
   \<and> length_v3 (tri_a (Triangle (vec 1 0 0) (vec (-1) 0 0) (vec 0 1 0))) = Fin 1"
  by (simp add: m12_def project_def normalize_def midpoint_def addVectors_def
      multiplyScalar_def length_v3_def vec_def)

section \<open>Depth zero\<close>

text \<open>
  C8. With depth 0 the generator returns the base geometry itself, whatever three.js
  would do to a merged geometry: same attributes, same index, and so the same
  decomposition into triangles, by the index buffer when there is one and by
  consecutive triples of vertices otherwise. The base geometry has a position
  attribute.
\<close>

theorem depth_zero_returns_base:
  assumes "attributes baseGeometry ''position'' = Some basePositions"
  shows "createNeogenesisFractal three baseGeometry 0 = Inr baseGeometry"
  using assms
  by (simp add: createNeogenesisFractal_def initialTriangles_def split: option.splits)

theorem depth_zero_returns_base_witness:
  "attributes example_geometry ''position'' = Some example_array
   \<and> createNeogenesisFractal example_three example_geometry 0 = Inr example_geometry"
proof -
  have h: "attributes example_geometry ''position'' = Some example_array"
    by (simp add: example_geometry_def setAttribute_def)
  show ?thesis
    using h depth_zero_returns_base[OF h, of example_three] by simp
qed

section \<open>The band averages\<close>

lemma slice_arr_nth:
  "end' \<le> length arr \<Longrightarrow> slice_arr arr start end' = map ((!) arr) [start ..< end']"
  by (rule nth_equalityI) (auto simp: slice_arr_def)

lemma slice_arr_replicate:
  "slice_arr (replicate n v) start end' = replicate (min (end' - start) (n - start)) v"
  by (simp add: slice_arr_def)

lemma sum_list_normalized:
  "(\<Sum>v\<leftarrow>freqs. real (unat (v :: 8 word)) / 255) = real (sum_list (map unat freqs)) / 255"
  by (induction freqs) (simp_all add: add_divide_distrib)

text \<open>On a slice that is not empty the code's average is the mean of the normalised magnitudes.\<close>

lemma bandAverage_mean: "freqs \<noteq> [] \<Longrightarrow> bandAverage freqs = Fin (spec_meanNormalized freqs)"
  unfolding bandAverage_def spec_meanNormalized_def sum_list_normalized by simp

lemma bandAverage_replicate:
  "0 < k \<Longrightarrow> bandAverage (replicate k v) = Fin (real (unat v) / 255)"
  by (simp add: bandAverage_def sum_list_replicate)

lemma treble_slice_nonempty:
  "10 \<le> (n::nat) \<Longrightarrow> 0 < min (n * 8 div 10 - n * 4 div 10) (n - n * 4 div 10)"
  by simp

lemma sampleBands_zero: "10 \<le> n \<Longrightarrow> sampleBands (replicate n 0) n = (Fin 0, Fin 0)"
  using treble_slice_nonempty[of n]
  by (simp add: sampleBands_def slice_arr_replicate bandAverage_replicate del: min_less_iff_conj)

lemma sampleBands_max: "10 \<le> n \<Longrightarrow> sampleBands (replicate n 255) n = (Fin 1, Fin 1)"
  using treble_slice_nonempty[of n]
  by (simp add: sampleBands_def slice_arr_replicate bandAverage_replicate del: min_less_iff_conj)

lemma sampleBands_mean:
  assumes "10 \<le> length frame"
  shows "sampleBands frame (length frame) =
    (Fin (spec_meanNormalized (map ((!) frame) [0 ..< length frame div 10])),
     Fin (spec_meanNormalized (map ((!) frame) [length frame * 4 div 10 ..< length frame * 8 div 10])))"
proof -
  let ?n = "length frame"
  have b: "slice_arr frame 0 (?n div 10) = map ((!) frame) [0 ..< ?n div 10]"
    by (rule slice_arr_nth) simp
  have t: "slice_arr frame (?n * 4 div 10) (?n * 8 div 10) =
      map ((!) frame) [?n * 4 div 10 ..< ?n * 8 div 10]"
    by (rule slice_arr_nth) simp
  have bne: "map ((!) frame) [0 ..< ?n div 10] \<noteq> []"
    using assms by simp
  have "?n * 4 div 10 < ?n * 8 div 10"
    using assms by linarith
  then have tne: "map ((!) frame) [?n * 4 div 10 ..< ?n * 8 div 10] \<noteq> []"
    by simp
  show ?thesis
    by (simp only: sampleBands_def Let_def b t bandAverage_mean[OF bne] bandAverage_mean[OF tne])
qed

text \<open>
  C5, as the code has it. For a frame of at least 10 bins, with the bin count the
  length of the frame: the bass is the mean of the normalised magnitudes of the bins
  \<open>0 \<le> i < \<lfloor>n / 10\<rfloor>\<close>, the treble the mean over \<open>\<lfloor>4 n / 10\<rfloor> \<le> i < \<lfloor>8 n / 10\<rfloor>\<close>;
  an all-zero frame gives \<open>(0, 0)\<close> and a frame of 255s gives \<open>(1, 1)\<close>.
\<close>

theorem sampleBands_of_frame:
  assumes "10 \<le> n" and "length frame = n"
  shows "sampleBands frame n =
           (Fin (spec_meanNormalized (map ((!) frame) [0 ..< n div 10])),
            Fin (spec_meanNormalized (map ((!) frame) [n * 4 div 10 ..< n * 8 div 10])))
       \<and> sampleBands (replicate n 0) n = (Fin 0, Fin 0)
       \<and> sampleBands (replicate n 255) n = (Fin 1, Fin 1)"
  using assms sampleBands_mean[of frame] sampleBands_zero[of n] sampleBands_max[of n]
  by simp

theorem sampleBands_of_frame_witness:
  "(10::nat) \<le> 16 \<and> length example_bytes = 16
   \<and> sampleBands example_bytes 16 =
       (Fin (spec_meanNormalized (map ((!) example_bytes) [0 ..< 16 div 10])),
        Fin (spec_meanNormalized (map ((!) example_bytes) [16 * 4 div 10 ..< 16 * 8 div 10])))
   \<and> sampleBands (replicate 16 0) 16 = (Fin 0, Fin 0)
   \<and> sampleBands (replicate 16 255) 16 = (Fin 1, Fin 1)"
proof -
  have h: "(10::nat) \<le> 16" "length example_bytes = 16"
    by (simp_all add: example_bytes_def)
  show ?thesis
    using h sampleBands_of_frame[OF h] by simp
qed

lemma upt_16: "[0 ..< 16] = [0, 1, 2, 3, 4, 5, 6, 7, 8, 9, 10, 11, 12, 13, 14, 15::nat]"
  by (simp add: upt_rec)

lemma spec_bass_bins_16: "spec_binsIn 0 (1 / 10) 16 = [0, 1]"
  unfolding spec_binsIn_def upt_16 by simp

text \<open>
  The claim as the specification states it fails on a frame an analyser delivers. With
  16 bins the interval \<open>[0, 0.1 * 16)\<close> holds the bins 0 and 1, and the mean of the
  normalised magnitudes over them is \<open>1 / 2\<close> when bin 1 alone sounds, at 255; the code
  cuts the slice at \<open>\<lfloor>1.6\<rfloor> = 1\<close>, reads bin 0 alone, and its bass is 0. And in the
  claim's range of bin counts above 0, though below what an analyser delivers, the
  all-zero frame of 5 bins has an empty bass slice, and its bass is \<open>0 / 0\<close>.
\<close>

theorem sampleBands_truncated_range_counterexample:
  "length example_spike = 16
   \<and> fst (sampleBands example_spike 16) = Fin 0
   \<and> spec_bandMean example_spike 0 (1 / 10) = 1 / 2
   \<and> sampleBands (replicate 5 0) 5 = (NaN, Fin 0)"
  by (simp add: example_spike_def sampleBands_def slice_arr_def bandAverage_def spec_bandMean_def
      spec_bass_bins_16 spec_meanNormalized_def)

section \<open>The displacement loop\<close>

lemma length_setXYZ: "length (setXYZ arr i v) = length arr"
  by (simp add: setXYZ_def)

lemma length_deformVertex:
  "length (deformVertex fd props sb orig nrm i arr) = length arr"
  by (simp add: deformVertex_def Let_def length_setXYZ)

lemma length_fold_deformVertex:
  "length (fold (deformVertex fd props sb orig nrm) is arr) = length arr"
  by (induction "is" arbitrary: arr) (simp_all add: length_deformVertex)

lemma length_deformLoop: "length (deformLoop fd props sb orig nrm arr) = length arr"
  by (simp add: deformLoop_def length_fold_deformVertex)

lemma nth_setXYZ:
  "j < length arr \<Longrightarrow>
   setXYZ arr i v ! j =
     (if j = i * 3 then vx v else if j = i * 3 + 1 then vy v
      else if j = i * 3 + 2 then vz v else arr ! j)"
  by (simp add: setXYZ_def nth_list_update)

lemma div3_cases: "j div 3 = i \<longleftrightarrow> j = i * 3 \<or> j = i * 3 + 1 \<or> j = i * 3 + (2::nat)"
  by presburger

text \<open>
  The pass for vertex \<open>i\<close> rewrites the three numbers of vertex \<open>i\<close>, each from its own
  old value, and no other.
\<close>

lemma nth_deformVertex:
  assumes "j < length arr" and "fd \<noteq> []"
  shows "deformVertex fd props sb orig nrm i arr ! j =
     (if j div 3 = i
      then spec_smooth (arr ! j)
             (rd orig j + rd nrm j * spec_targetDisplacement fd (fractalWaveAmplitude props) sb i)
             (Fin (fractalWaveSmoothing props))
      else arr ! j)"
  using assms
  by (auto simp: deformVertex_def Let_def nth_setXYZ div3_cases lerp_v3_def spec_smooth_def
      spec_targetDisplacement_def spec_freqValue_def rd_def)

lemma nth_fold_deformVertex:
  assumes "fd \<noteq> []" and "j < length arr"
  shows "fold (deformVertex fd props sb orig nrm) [0 ..< n] arr ! j =
          (if j div 3 < n
           then spec_smooth (arr ! j)
                  (rd orig j + rd nrm j *
                     spec_targetDisplacement fd (fractalWaveAmplitude props) sb (j div 3))
                  (Fin (fractalWaveSmoothing props))
           else arr ! j)"
proof (induction n)
  case 0
  show ?case by simp
next
  case (Suc n)
  then show ?case
    using assms by (auto simp: length_fold_deformVertex nth_deformVertex less_Suc_eq)
qed

lemma nth_deformLoop:
  assumes "fd \<noteq> []" and "j < length arr"
  shows "deformLoop fd props sb orig nrm arr ! j =
           spec_smooth (arr ! j)
             (rd orig j + rd nrm j *
                spec_targetDisplacement fd (fractalWaveAmplitude props) sb (j div 3))
             (Fin (fractalWaveSmoothing props))"
proof -
  have "j div 3 < (length arr + 2) div 3"
    using assms(2) by linarith
  then show ?thesis
    using nth_fold_deformVertex[OF assms, of props sb orig nrm "(length arr + 2) div 3"]
    by (simp add: deformLoop_def)
qed

section \<open>One tick\<close>

lemma sampleAudio_reactive:
  "isAudioReactive props \<Longrightarrow>
   sampleAudio (Some audio) props bytes =
     (Some (frequencyData (updateFrequencyData bytes audio)),
      fst (sampleBands (frequencyData (updateFrequencyData bytes audio)) (frequencyBinCount audio)),
      snd (sampleBands (frequencyData (updateFrequencyData bytes audio)) (frequencyBinCount audio)),
      Some (updateFrequencyData bytes audio))"
  by (simp add: sampleAudio_def Let_def split_def updateFrequencyData_def)

lemma fractalGroup_updateParticleUniforms:
  "fractalGroup (updateParticleUniforms sb st s) = fractalGroup s"
  by (simp add: updateParticleUniforms_def split: option.splits)

lemma originalFractalPositions_updateParticleUniforms:
  "originalFractalPositions (updateParticleUniforms sb st s) = originalFractalPositions s"
  by (simp add: updateParticleUniforms_def split: option.splits)

lemmas updateParticleUniforms_simps =
  fractalGroup_updateParticleUniforms originalFractalPositions_updateParticleUniforms

text \<open>
  C3. A tick in wireframe mode with an audio frame that is not empty (there is an audio
  processor and the visuals are audio reactive), resting positions and normals. With
  \<open>smoothedBass\<close> the bass uniform moved a tenth of the way to this tick's bass
  average times the bass sensitivity, the tick ends without an exception and every
  number \<open>j\<close> of the position array, the coordinate \<open>j mod 3\<close> of vertex \<open>j div 3\<close>,
  has moved from its old value towards its own target, the resting value plus the
  normal times the target displacement of the vertex, at the rate
  \<open>fractalWaveSmoothing\<close>; the frequency value of vertex \<open>i\<close> is the byte at
  \<open>i mod length frame\<close> divided by 255.
\<close>

theorem deforming_tick:
  assumes "fractalWireframe props" and "isAudioReactive props"
    and "audioProcessor s = Some audio"
    and "frequencyData (updateFrequencyData bytes audio) = frame" and "frame \<noteq> []"
    and "fractalGroup s = Some geo"
    and "attributes geo ''position'' = Some posArr"
    and "attributes geo ''normal'' = Some normals"
    and "originalFractalPositions s = Some orig"
    and "smoothedBass = lerp (uBass s)
           (fst (sampleBands frame (frequencyBinCount audio)) * Fin (bassSensitivity props)) (Fin 0.1)"
  shows "fst (animate s props bytes) = None \<and>
    (\<exists>posArr'. fractalPositions (snd (animate s props bytes)) = Some posArr' \<and>
       length posArr' = length posArr \<and>
       (\<forall>j < length posArr.
          posArr' ! j =
            spec_smooth (posArr ! j)
              (rd orig j + rd normals j *
                 spec_targetDisplacement frame (fractalWaveAmplitude props) smoothedBass (j div 3))
              (Fin (fractalWaveSmoothing props))))"
proof -
  let ?loop = "deformLoop frame props smoothedBass orig normals posArr"
  have upd: "updateFractalGeometry props (Some (updateFrequencyData bytes audio)) (Some frame)
        smoothedBass (Some orig) (lastWireframeState s) geo
      = Inr (setAttribute geo ''position'' (Some ?loop))"
    using assms(1,7,8) by (simp add: updateFractalGeometry_def)
  have an: "animate s props bytes =
      (None, updateParticleUniforms smoothedBass
         (lerp (uTreble s)
            (snd (sampleBands frame (frequencyBinCount audio)) * Fin (trebleSensitivity props))
            (Fin 0.1))
         (s\<lparr>audioProcessor := Some (updateFrequencyData bytes audio),
            fractalGroup := Some (setAttribute geo ''position'' (Some ?loop)),
            lastWireframeState := fractalWireframe props\<rparr>))"
    using assms(2,3,4,6,9,10) upd
    by (simp add: animate_def sampleAudio_reactive Let_def)
  have pos: "fractalPositions (snd (animate s props bytes)) = Some ?loop"
    by (simp add: an fractalPositions_def setAttribute_def updateParticleUniforms_simps)
  show ?thesis
    using assms(5) by (simp add: pos length_deformLoop nth_deformLoop) (simp add: an)
qed

theorem deforming_tick_witness:
  "fractalWireframe example_props \<and> isAudioReactive example_props
   \<and> audioProcessor example_scene = Some example_audio
   \<and> frequencyData (updateFrequencyData example_bytes example_audio) = example_bytes
   \<and> example_bytes \<noteq> []
   \<and> fractalGroup example_scene = Some example_geometry
   \<and> attributes example_geometry ''position'' = Some example_array
   \<and> attributes example_geometry ''normal'' = Some example_array
   \<and> originalFractalPositions example_scene = Some example_array
   \<and> fst (animate example_scene example_props example_bytes) = None
   \<and> (\<exists>posArr'. fractalPositions (snd (animate example_scene example_props example_bytes))
                   = Some posArr'
         \<and> length posArr' = 9 \<and> posArr' ! 0 = Fin (411 / 400) \<and> posArr' ! 1 = Fin 0)"
proof -
  have h: "fractalWireframe example_props" "isAudioReactive example_props"
      "audioProcessor example_scene = Some example_audio"
      "frequencyData (updateFrequencyData example_bytes example_audio) = example_bytes"
      "example_bytes \<noteq> []"
      "fractalGroup example_scene = Some example_geometry"
      "attributes example_geometry ''position'' = Some example_array"
      "attributes example_geometry ''normal'' = Some example_array"
      "originalFractalPositions example_scene = Some example_array"
    by (simp_all add: example_props_def example_scene_def example_audio_def example_bytes_def
        example_geometry_def setAttribute_def updateFrequencyData_def getByteFrequencyData_def)
  have sb: "Fin (1 / 10) = lerp (uBass example_scene)
      (fst (sampleBands example_bytes (frequencyBinCount example_audio))
         * Fin (bassSensitivity example_props)) (Fin 0.1)"
    by (simp add: example_scene_def example_audio_def example_props_def example_bytes_def
        sampleBands_def slice_arr_def bandAverage_def lerp_def)
  have d: "spec_targetDisplacement example_bytes (fractalWaveAmplitude example_props)
      (Fin (1 / 10)) 0 = Fin (11 / 40)"
    by (simp add: spec_targetDisplacement_def spec_freqValue_def example_bytes_def
        example_props_def)
  from deforming_tick[OF h sb]
  obtain posArr' where p: "fst (animate example_scene example_props example_bytes) = None"
      "fractalPositions (snd (animate example_scene example_props example_bytes)) = Some posArr'"
      "length posArr' = length example_array"
      "\<forall>j < length example_array. posArr' ! j =
          spec_smooth (example_array ! j)
            (rd example_array j + rd example_array j *
               spec_targetDisplacement example_bytes (fractalWaveAmplitude example_props)
                 (Fin (1 / 10)) (j div 3))
            (Fin (fractalWaveSmoothing example_props))"
    by blast
  have "posArr' ! 0 = Fin (411 / 400)"
    using p(4)[rule_format, of 0] d
    by (simp add: example_array_def rd_def spec_smooth_def example_props_def)
  moreover have "posArr' ! 1 = Fin 0"
    using p(4)[rule_format, of 1] d
    by (simp add: example_array_def rd_def spec_smooth_def example_props_def)
  moreover have "length posArr' = 9"
    using p(3) by (simp add: example_array_def)
  ultimately show ?thesis
    using h p(1,2) by blast
qed

text \<open>
  C4. On the tick on which the wireframe flag is off and was on at the last tick, with
  the resting positions captured for the geometry shown (an array of the length of the
  position array), the tick ends without an exception and the position array is the
  array of resting positions, whatever it held before.
\<close>

theorem restore_on_leaving_wireframe:
  assumes "\<not> fractalWireframe props" and "lastWireframeState s"
    and "fractalGroup s = Some geo"
    and "attributes geo ''position'' = Some posArr"
    and "originalFractalPositions s = Some orig"
    and "length orig = length posArr"
  shows "fst (animate s props bytes) = None \<and>
         fractalPositions (snd (animate s props bytes)) = Some orig"
  using assms
  by (simp add: animate_def updateFractalGeometry_def typedArraySet_def Let_def split_def
      fractalPositions_def setAttribute_def updateParticleUniforms_simps)

theorem restore_on_leaving_wireframe_witness:
  "\<not> fractalWireframe (example_props\<lparr>fractalWireframe := False\<rparr>)
   \<and> lastWireframeState (example_scene\<lparr>fractalGroup := Some example_displaced\<rparr>)
   \<and> fractalPositions (example_scene\<lparr>fractalGroup := Some example_displaced\<rparr>)
       = Some [Fin 2, Fin 0, Fin 0, Fin 0, Fin 2, Fin 0, Fin 0, Fin 0, Fin 2]
   \<and> fst (animate (example_scene\<lparr>fractalGroup := Some example_displaced\<rparr>)
            (example_props\<lparr>fractalWireframe := False\<rparr>) example_bytes) = None
   \<and> fractalPositions (snd (animate (example_scene\<lparr>fractalGroup := Some example_displaced\<rparr>)
            (example_props\<lparr>fractalWireframe := False\<rparr>) example_bytes)) = Some example_array"
proof -
  let ?s = "example_scene\<lparr>fractalGroup := Some example_displaced\<rparr>"
  let ?p = "example_props\<lparr>fractalWireframe := False\<rparr>"
  have h: "\<not> fractalWireframe ?p" "lastWireframeState ?s"
      "fractalGroup ?s = Some example_displaced"
      "attributes example_displaced ''position'' =
         Some [Fin 2, Fin 0, Fin 0, Fin 0, Fin 2, Fin 0, Fin 0, Fin 0, Fin 2]"
      "originalFractalPositions ?s = Some example_array"
      "length example_array = length [Fin 2, Fin 0, Fin 0, Fin 0, Fin 2, Fin 0, Fin 0, Fin 0, Fin 2]"
    by (simp_all add: example_scene_def example_displaced_def setAttribute_def example_array_def)
  show ?thesis
    using h restore_on_leaving_wireframe[OF h, of example_bytes]
    by (simp add: fractalPositions_def)
qed

lemma animate_wireframe_positions:
  assumes "fractalWireframe props" and "isAudioReactive props"
    and "audioProcessor s = Some audio"
    and "frequencyData (updateFrequencyData bytes audio) = frame"
    and "fractalGroup s = Some geo"
    and "attributes geo ''position'' = Some posArr"
    and "attributes geo ''normal'' = Some normals"
    and "originalFractalPositions s = Some orig"
    and "smoothedBass = lerp (uBass s)
           (fst (sampleBands frame (frequencyBinCount audio)) * Fin (bassSensitivity props)) (Fin 0.1)"
  shows "fst (animate s props bytes) = None \<and>
         fractalPositions (snd (animate s props bytes))
           = Some (deformLoop frame props smoothedBass orig normals posArr)"
proof -
  let ?loop = "deformLoop frame props smoothedBass orig normals posArr"
  have upd: "updateFractalGeometry props (Some (updateFrequencyData bytes audio)) (Some frame)
        smoothedBass (Some orig) (lastWireframeState s) geo
      = Inr (setAttribute geo ''position'' (Some ?loop))"
    using assms(1,6,7) by (simp add: updateFractalGeometry_def)
  have an: "animate s props bytes =
      (None, updateParticleUniforms smoothedBass
         (lerp (uTreble s)
            (snd (sampleBands frame (frequencyBinCount audio)) * Fin (trebleSensitivity props))
            (Fin 0.1))
         (s\<lparr>audioProcessor := Some (updateFrequencyData bytes audio),
            fractalGroup := Some (setAttribute geo ''position'' (Some ?loop)),
            lastWireframeState := fractalWireframe props\<rparr>))"
    using assms(2,3,4,5,8,9) upd
    by (simp add: animate_def sampleAudio_reactive Let_def)
  show ?thesis
    by (simp add: an fractalPositions_def setAttribute_def updateParticleUniforms_simps)
qed

lemma zero_frame_displacement:
  "fd \<noteq> [] \<Longrightarrow>
   spec_targetDisplacement (map (\<lambda>_. 0) fd) amp sb i = Fin 0 * Fin amp * (Fin 1 + sb)"
  by (simp add: spec_targetDisplacement_def spec_freqValue_def)

lemma uninitialised_frame:
  "\<not> isInitialized audio \<Longrightarrow>
   frequencyData (updateFrequencyData bytes audio) = map (\<lambda>_. 0) (frequencyData audio)"
  by (simp add: updateFrequencyData_def)

text \<open>
  C6, as the code has it. A tick in wireframe mode with no resting positions captured, or
  with no frequency data (\<open>freqData\<close> is null: there is no audio processor, or the
  visuals are not audio reactive), ends without an exception and leaves the geometry of
  the fractal as it was: the loop over the vertices is not entered, and the position
  array holds what it held. An audio processor that is there but not initialised is
  not such a case. It fills its array with zeros and hands it over, the loop runs,
  and every number of the position array moves at the rate \<open>fractalWaveSmoothing\<close>
  towards its target for the frequency value 0: the resting value plus the normal
  times \<open>0 * fractalWaveAmplitude * (1 + smoothedBass)\<close>.
\<close>

theorem deformation_skipped:
  assumes "fractalWireframe props"
  shows "(originalFractalPositions s = None \<or> audioProcessor s = None \<or> \<not> isAudioReactive props
            \<longrightarrow> fst (animate s props bytes) = None
              \<and> fractalGroup (snd (animate s props bytes)) = fractalGroup s
              \<and> fractalPositions (snd (animate s props bytes)) = fractalPositions s)
       \<and> (isAudioReactive props \<and> audioProcessor s = Some audio \<and> \<not> isInitialized audio
            \<and> frequencyData audio \<noteq> [] \<and> fractalGroup s = Some geo
            \<and> attributes geo ''position'' = Some posArr
            \<and> attributes geo ''normal'' = Some normals
            \<and> originalFractalPositions s = Some orig
            \<and> smoothedBass = lerp (uBass s)
                 (fst (sampleBands (map (\<lambda>_. 0) (frequencyData audio)) (frequencyBinCount audio))
                    * Fin (bassSensitivity props)) (Fin 0.1)
            \<longrightarrow> fst (animate s props bytes) = None
              \<and> (\<exists>posArr'. fractalPositions (snd (animate s props bytes)) = Some posArr'
                    \<and> length posArr' = length posArr
                    \<and> (\<forall>j < length posArr.
                          posArr' ! j =
                            spec_smooth (posArr ! j)
                              (rd orig j + rd normals j *
                                 (Fin 0 * Fin (fractalWaveAmplitude props) * (Fin 1 + smoothedBass)))
                              (Fin (fractalWaveSmoothing props)))))"
proof (intro conjI impI)
  assume "originalFractalPositions s = None \<or> audioProcessor s = None \<or> \<not> isAudioReactive props"
  then have skip: "fst (animate s props bytes) = None
      \<and> fractalGroup (snd (animate s props bytes)) = fractalGroup s
      \<and> fractalPositions (snd (animate s props bytes)) = fractalPositions s"
    using assms
    by (auto simp: animate_def updateFractalGeometry_def sampleAudio_def Let_def split_def
        fractalPositions_def updateParticleUniforms_simps split: option.splits)
  show "fst (animate s props bytes) = None"
    using skip by blast
  show "fractalGroup (snd (animate s props bytes)) = fractalGroup s"
    using skip by blast
  show "fractalPositions (snd (animate s props bytes)) = fractalPositions s"
    using skip by blast
next
  assume h: "isAudioReactive props \<and> audioProcessor s = Some audio \<and> \<not> isInitialized audio
            \<and> frequencyData audio \<noteq> [] \<and> fractalGroup s = Some geo
            \<and> attributes geo ''position'' = Some posArr
            \<and> attributes geo ''normal'' = Some normals
            \<and> originalFractalPositions s = Some orig
            \<and> smoothedBass = lerp (uBass s)
                 (fst (sampleBands (map (\<lambda>_. 0) (frequencyData audio)) (frequencyBinCount audio))
                    * Fin (bassSensitivity props)) (Fin 0.1)"
  let ?zeros = "map (\<lambda>_. 0) (frequencyData audio) :: 8 word list"
  have fr: "frequencyData (updateFrequencyData bytes audio) = ?zeros"
    using h by (simp add: uninitialised_frame)
  have ne: "?zeros \<noteq> []"
    using h by simp
  have hs: "isAudioReactive props" "audioProcessor s = Some audio" "fractalGroup s = Some geo"
      "attributes geo ''position'' = Some posArr" "attributes geo ''normal'' = Some normals"
      "originalFractalPositions s = Some orig"
      "smoothedBass = lerp (uBass s)
         (fst (sampleBands ?zeros (frequencyBinCount audio)) * Fin (bassSensitivity props))
         (Fin 0.1)"
    using h by blast+
  have run: "fst (animate s props bytes) = None \<and>
      fractalPositions (snd (animate s props bytes))
        = Some (deformLoop ?zeros props smoothedBass orig normals posArr)"
    by (rule animate_wireframe_positions[OF assms hs(1,2) fr hs(3-7)])
  show "fst (animate s props bytes) = None"
    using run by blast
  show "\<exists>posArr'. fractalPositions (snd (animate s props bytes)) = Some posArr'
          \<and> length posArr' = length posArr
          \<and> (\<forall>j < length posArr.
                posArr' ! j =
                  spec_smooth (posArr ! j)
                    (rd orig j + rd normals j *
                       (Fin 0 * Fin (fractalWaveAmplitude props) * (Fin 1 + smoothedBass)))
                    (Fin (fractalWaveSmoothing props)))"
    using run h
    by (simp add: length_deformLoop nth_deformLoop[OF ne] zero_frame_displacement)
qed

theorem deformation_skipped_witness:
  "fractalWireframe example_props
   \<and> audioProcessor (example_scene\<lparr>fractalGroup := Some example_displaced, audioProcessor := None\<rparr>)
       = None
   \<and> fst (animate (example_scene\<lparr>fractalGroup := Some example_displaced, audioProcessor := None\<rparr>)
            example_props example_bytes) = None
   \<and> fractalPositions
       (snd (animate (example_scene\<lparr>fractalGroup := Some example_displaced, audioProcessor := None\<rparr>)
            example_props example_bytes))
       = Some [Fin 2, Fin 0, Fin 0, Fin 0, Fin 2, Fin 0, Fin 0, Fin 0, Fin 2]
   \<and> isAudioReactive example_props
   \<and> audioProcessor example_uninitialised = Some (example_audio\<lparr>isInitialized := False\<rparr>)
   \<and> \<not> isInitialized (example_audio\<lparr>isInitialized := False\<rparr>)
   \<and> fst (animate example_uninitialised example_props example_bytes) = None
   \<and> (\<exists>posArr'. fractalPositions (snd (animate example_uninitialised example_props example_bytes))
                   = Some posArr'
         \<and> length posArr' = 9 \<and> posArr' ! 0 = Fin (19 / 10))"
proof -
  let ?s = "example_scene\<lparr>fractalGroup := Some example_displaced, audioProcessor := None\<rparr>"
  let ?a = "example_audio\<lparr>isInitialized := False\<rparr>"
  let ?d = "[Fin 2, Fin 0, Fin 0, Fin 0, Fin 2, Fin 0, Fin 0, Fin 0, Fin 2]"
  have w: "fractalWireframe example_props"
    by (simp add: example_props_def)
  have a: "audioProcessor ?s = None"
    by simp
  have p: "fractalPositions ?s = Some ?d"
    by (simp add: fractalPositions_def example_displaced_def setAttribute_def)
  have skip: "fst (animate ?s example_props example_bytes) = None
      \<and> fractalPositions (snd (animate ?s example_props example_bytes)) = Some ?d"
    using a p deformation_skipped[OF w, where s = ?s and bytes = example_bytes] by simp
  have u: "isAudioReactive example_props" "audioProcessor example_uninitialised = Some ?a"
      "\<not> isInitialized ?a" "frequencyData ?a \<noteq> []"
      "fractalGroup example_uninitialised = Some example_displaced"
      "attributes example_displaced ''position'' = Some ?d"
      "attributes example_displaced ''normal'' = Some example_array"
      "originalFractalPositions example_uninitialised = Some example_array"
    by (simp_all add: example_props_def example_uninitialised_def example_scene_def
        example_audio_def example_displaced_def example_geometry_def setAttribute_def)
  have sb: "Fin 0 = lerp (uBass example_uninitialised)
      (fst (sampleBands (map (\<lambda>_. 0) (frequencyData ?a)) (frequencyBinCount ?a))
         * Fin (bassSensitivity example_props)) (Fin 0.1)"
    by (simp add: example_uninitialised_def example_scene_def example_audio_def example_props_def
        sampleBands_def slice_arr_def bandAverage_def lerp_def)
  from deformation_skipped[OF w, where s = example_uninitialised and audio = ?a
      and geo = example_displaced and posArr = ?d and normals = example_array
      and orig = example_array and smoothedBass = "Fin 0" and bytes = example_bytes] u sb
  obtain posArr' where r: "fst (animate example_uninitialised example_props example_bytes) = None"
      "fractalPositions (snd (animate example_uninitialised example_props example_bytes))
         = Some posArr'"
      "length posArr' = length ?d"
      "\<forall>j < length ?d. posArr' ! j =
          spec_smooth (?d ! j)
            (rd example_array j + rd example_array j *
               (Fin 0 * Fin (fractalWaveAmplitude example_props) * (Fin 1 + Fin 0)))
            (Fin (fractalWaveSmoothing example_props))"
    by blast
  have "posArr' ! 0 = Fin (19 / 10)"
    using r(4)[rule_format, of 0]
    by (simp add: example_array_def rd_def spec_smooth_def example_props_def)
  moreover have "length posArr' = 9"
    using r(3) by simp
  ultimately show ?thesis
    using w a skip u(1,2,3) r(1,2) by blast
qed

text \<open>
  The claim as the specification states it, that the update is skipped whenever the
  audio collaborator has no data, fails for an audio processor no source was connected
  to: the frame it reports is all zeros, the guard lets it pass, and the displaced
  coordinate 2 of the first vertex, whose resting value is 1, is written back as
  \<open>19 / 10\<close>.
\<close>

theorem uninitialised_audio_counterexample:
  "fractalWireframe example_props
   \<and> audioProcessor example_uninitialised = Some (example_audio\<lparr>isInitialized := False\<rparr>)
   \<and> frequencyData (updateFrequencyData example_bytes (example_audio\<lparr>isInitialized := False\<rparr>))
       = replicate 16 0
   \<and> fractalCoordinate example_uninitialised 0 = Fin 2
   \<and> fractalCoordinate (snd (animate example_uninitialised example_props example_bytes)) 0
       = Fin (19 / 10)"
proof -
  let ?a = "example_audio\<lparr>isInitialized := False\<rparr>"
  let ?d = "[Fin 2, Fin 0, Fin 0, Fin 0, Fin 2, Fin 0, Fin 0, Fin 0, Fin 2]"
  have u: "fractalWireframe example_props" "isAudioReactive example_props"
      "audioProcessor example_uninitialised = Some ?a"
      "frequencyData (updateFrequencyData example_bytes ?a) = replicate 16 0"
      "fractalGroup example_uninitialised = Some example_displaced"
      "attributes example_displaced ''position'' = Some ?d"
      "attributes example_displaced ''normal'' = Some example_array"
      "originalFractalPositions example_uninitialised = Some example_array"
    by (simp_all add: example_props_def example_uninitialised_def example_scene_def
        example_audio_def example_displaced_def example_geometry_def setAttribute_def
        updateFrequencyData_def)
  have sb: "Fin 0 = lerp (uBass example_uninitialised)
      (fst (sampleBands (replicate 16 0) (frequencyBinCount ?a))
         * Fin (bassSensitivity example_props)) (Fin 0.1)"
    by (simp add: example_uninitialised_def example_scene_def example_audio_def example_props_def
        sampleBands_def slice_arr_def bandAverage_def lerp_def)
  have before: "fractalCoordinate example_uninitialised 0 = Fin 2"
    by (simp add: fractalCoordinate_def fractalPositions_def u(5,6) rd_def)
  have ne: "replicate 16 (0 :: 8 word) \<noteq> []"
    by simp
  have "fractalPositions (snd (animate example_uninitialised example_props example_bytes))
      = Some (deformLoop (replicate 16 0) example_props (Fin 0) example_array example_array ?d)"
    using animate_wireframe_positions[OF u sb] by blast
  then have "fractalCoordinate (snd (animate example_uninitialised example_props example_bytes)) 0
      = Fin (19 / 10)"
    by (simp add: fractalCoordinate_def rd_def length_deformLoop nth_deformLoop[OF ne]
        spec_targetDisplacement_def spec_freqValue_def spec_smooth_def example_array_def
        example_props_def)
  then show ?thesis
    using u(1,3,4) before by blast
qed


section \<open>What the ticks leave alone\<close>

lemma updateFractalGeometry_keeps:
  "updateFractalGeometry props audio fd sb orig lw geo = Inr geo' \<Longrightarrow>
   attributes geo' ''normal'' = attributes geo ''normal'' \<and> index geo' = index geo"
  by (auto simp: updateFractalGeometry_def setAttribute_def
      split: if_splits option.splits sum.splits)

lemma animate_normals: "fractalNormals (snd (animate s props bytes)) = fractalNormals s"
  by (auto simp: animate_def fractalNormals_def Let_def split_def updateParticleUniforms_simps
      split: option.splits sum.splits dest: updateFractalGeometry_keeps)

lemma animate_original:
  "originalFractalPositions (snd (animate s props bytes)) = originalFractalPositions s"
  by (auto simp: animate_def Let_def split_def updateParticleUniforms_simps
      split: option.splits sum.splits)

lemma animateAll_keeps:
  "fractalNormals (animateAll s frames) = fractalNormals s \<and>
   originalFractalPositions (animateAll s frames) = originalFractalPositions s"
  by (induction s frames rule: animateAll.induct) (simp_all add: animate_normals animate_original)

lemma regenerateFractal_result:
  assumes "fractalGroup s = Some oldGeo"
    and "createNeogenesisFractal three baseGeo depth = Inr newGeo"
    and "attributes newGeo ''position'' = Some arr"
  shows "regenerateFractal three baseGeo depth s =
           (None, s\<lparr>originalFractalPositions := Some arr, fractalGroup := Some newGeo\<rparr>)"
  using assms by (simp add: regenerateFractal_def)

text \<open>
  The resting positions stay captured: the regeneration captures them for the new
  geometry, and a tick keeps the length of the position array.
\<close>

lemma regenerateFractal_captures:
  assumes "fractalGroup s = Some oldGeo"
    and "createNeogenesisFractal three baseGeo depth = Inr newGeo"
    and "attributes newGeo ''position'' = Some arr"
  shows "restingCaptured (snd (regenerateFractal three baseGeo depth s))"
  by (simp add: regenerateFractal_result[OF assms] restingCaptured_def fractalPositions_def assms(3))

lemma updateFractalGeometry_length:
  assumes "updateFractalGeometry props audio fd sb (Some orig) lw geo = Inr geo'"
    and "attributes geo ''position'' = Some posArr" and "length orig = length posArr"
  shows "\<exists>posArr'. attributes geo' ''position'' = Some posArr' \<and> length posArr' = length posArr"
  using assms
  by (auto simp: updateFractalGeometry_def setAttribute_def typedArraySet_def length_deformLoop
      split: if_splits option.splits sum.splits)

lemma animate_keeps_captured:
  assumes "restingCaptured s"
  shows "restingCaptured (snd (animate s props bytes))"
proof -
  from assms obtain geo orig posArr where g: "fractalGroup s = Some geo"
      "originalFractalPositions s = Some orig" "attributes geo ''position'' = Some posArr"
      "length orig = length posArr"
    by (auto simp: restingCaptured_def fractalPositions_def split: option.splits)
  obtain fd ba ta au where sa: "sampleAudio (audioProcessor s) props bytes = (fd, ba, ta, au)"
    by (cases "sampleAudio (audioProcessor s) props bytes") auto
  let ?sb = "lerp (uBass s) (ba * Fin (bassSensitivity props)) (Fin 0.1)"
  show ?thesis
  proof (cases "updateFractalGeometry props au fd ?sb (Some orig) (lastWireframeState s) geo")
    case (Inl e)
    then show ?thesis
      using g sa by (simp add: animate_def restingCaptured_def fractalPositions_def)
  next
    case (Inr geo')
    from updateFractalGeometry_length[OF Inr g(3,4)]
    obtain posArr' where "attributes geo' ''position'' = Some posArr'"
        "length posArr' = length posArr"
      by blast
    then show ?thesis
      using g sa Inr
      by (simp add: animate_def restingCaptured_def fractalPositions_def
          updateParticleUniforms_simps)
  qed
qed

text \<open>
  C10. No tick writes the normal attribute of the fractal's geometry, in either mode and
  whether or not it ends with an exception, and none writes the resting positions.
  So after a regeneration that built the geometry \<open>newGeo\<close>, and any run of ticks from
  there, the normal attribute is the one \<open>newGeo\<close> was built with, and the resting
  positions are the positions \<open>newGeo\<close> was built with.
\<close>

theorem normals_never_written:
  assumes "fractalGroup s = Some oldGeo"
    and "createNeogenesisFractal three baseGeo depth = Inr newGeo"
    and "attributes newGeo ''position'' = Some arr"
  shows "fractalNormals (snd (animate s' props bytes)) = fractalNormals s'
       \<and> fractalNormals (animateAll s' frames) = fractalNormals s'
       \<and> fractalNormals (animateAll (snd (regenerateFractal three baseGeo depth s)) frames)
           = attributes newGeo ''normal''
       \<and> originalFractalPositions (animateAll (snd (regenerateFractal three baseGeo depth s)) frames)
           = Some arr"
  by (simp add: animate_normals animateAll_keeps regenerateFractal_result[OF assms])
     (simp add: fractalNormals_def)

theorem normals_never_written_witness:
  "fractalGroup (example_scene\<lparr>fractalGroup := Some example_displaced\<rparr>) = Some example_displaced
   \<and> createNeogenesisFractal example_three example_geometry 0 = Inr example_geometry
   \<and> attributes example_geometry ''position'' = Some example_array
   \<and> fractalNormals (animateAll
        (snd (regenerateFractal example_three example_geometry 0
                (example_scene\<lparr>fractalGroup := Some example_displaced\<rparr>)))
        [(example_props, example_bytes), (example_props\<lparr>fractalWireframe := False\<rparr>, example_bytes)])
       = Some example_array"
proof -
  have h: "fractalGroup (example_scene\<lparr>fractalGroup := Some example_displaced\<rparr>)
        = Some example_displaced"
      "createNeogenesisFractal example_three example_geometry 0 = Inr example_geometry"
      "attributes example_geometry ''position'' = Some example_array"
    by (simp_all add: createNeogenesisFractal_def initialTriangles_def example_geometry_def
        setAttribute_def emptyGeometry_def)
  have n: "attributes example_geometry ''normal'' = Some example_array"
    by (simp add: example_geometry_def setAttribute_def)
  have "fractalNormals (animateAll
        (snd (regenerateFractal example_three example_geometry 0
                (example_scene\<lparr>fractalGroup := Some example_displaced\<rparr>)))
        [(example_props, example_bytes), (example_props\<lparr>fractalWireframe := False\<rparr>, example_bytes)])
      = attributes example_geometry ''normal''"
    using normals_never_written[OF h] by blast
  then show ?thesis
    using h n by (simp del: animateAll.simps)
qed

section \<open>The particle field\<close>

lemma length_particlePosition: "length (particlePosition radius u v w) = 3"
  by (simp add: particlePosition_def Let_def)

text \<open>A flat array built of blocks of three: its length, and where each number lies.\<close>

lemma concat_blocks:
  assumes "\<And>i. length (f i) = 3"
  shows "length (concat (map f [0 ..< n])) = 3 * n \<and>
         (\<forall>i < n. \<forall>k < 3. concat (map f [0 ..< n]) ! (i * 3 + k) = f i ! k)"
proof (induction n)
  case 0
  show ?case by simp
next
  case (Suc n)
  have len: "length (concat (map f [0 ..< n])) = 3 * n"
    using Suc by simp
  show ?case
  proof (intro conjI allI impI)
    show "length (concat (map f [0 ..< Suc n])) = 3 * Suc n"
      using len assms by simp
  next
    fix i k :: nat
    assume ik: "i < Suc n" "k < 3"
    show "concat (map f [0 ..< Suc n]) ! (i * 3 + k) = f i ! k"
    proof (cases "i < n")
      case True
      then have "i * 3 + k < 3 * n"
        using ik(2) by linarith
      then show ?thesis
        using Suc True ik(2) len by (simp add: nth_append)
    next
      case False
      then have "i = n"
        using ik(1) by simp
      then show ?thesis
        using len by (simp add: nth_append)
    qed
  qed
qed

lemma createParticleGeometry_attributes:
  "attributes (createParticleGeometry count radius rnd) ''position'' =
     Some (concat (map (particleAt radius rnd) [0 ..< count]))"
  "attributes (createParticleGeometry count radius rnd) ''initialPosition'' =
     Some (concat (map (particleAt radius rnd) [0 ..< count]))"
  by (simp_all add: createParticleGeometry_def setAttribute_def emptyGeometry_def Let_def)

lemma sphere_norm:
  fixes r :: real
  assumes "a * a + b * b = 1" and "c * c + d * d = 1"
  shows "(r * a * c) * (r * a * c) + (r * a * d) * (r * a * d) + (r * b) * (r * b) = r * r"
proof -
  have "(r * a * c) * (r * a * c) + (r * a * d) * (r * a * d) + (r * b) * (r * b)
      = r * r * (a * a * (c * c + d * d) + b * b)"
    by (simp add: algebra_simps)
  then show ?thesis
    using assms by simp
qed

text \<open>A particle lies at the distance \<open>radius * cbrt w\<close> from the origin, \<open>w\<close> its radial draw.\<close>

lemma magnitude_particlePosition:
  assumes "0 \<le> radius" and "0 \<le> v" and "v \<le> 1" and "0 \<le> w"
  shows "length_v3 (Vector3 (particlePosition radius u v w ! 0) (particlePosition radius u v w ! 1)
            (particlePosition radius u v w ! 2)) = Fin (radius * root 3 w)"
proof -
  define r where "r = radius * root 3 w"
  define p where "p = arccos (2 * v - 1)"
  define t where "t = 2 * pi * u"
  have r: "0 \<le> r"
    using assms(1,4) by (simp add: r_def)
  have "\<not> (2 * v - 1 < -1 \<or> 1 < 2 * v - 1)"
    using assms(2,3) by simp
  then have pp: "particlePosition radius u v w =
      [Fin (r * sin p * cos t), Fin (r * sin p * sin t), Fin (r * cos p)]"
    unfolding particlePosition_def Let_def r_def p_def t_def by (rule if_not_P)
  have "(r * sin p * cos t) * (r * sin p * cos t) + (r * sin p * sin t) * (r * sin p * sin t)
      + (r * cos p) * (r * cos p) = r * r"
    by (rule sphere_norm) (simp_all add: add.commute)
  then have "length_v3 (Vector3 (Fin (r * sin p * cos t)) (Fin (r * sin p * sin t)) (Fin (r * cos p)))
      = Fin r"
    using r by (simp only: length_Fin real_sqrt_abs2 abs_of_nonneg)
  then show ?thesis
    by (simp add: pp r_def)
qed

lemma magnitude_particle:
  assumes "i < count" and "0 \<le> radius" and "0 \<le> rnd (3 * i + 1)" and "rnd (3 * i + 1) \<le> 1"
    and "0 \<le> rnd (3 * i + 2)"
  shows "magnitude (concat (map (particleAt radius rnd) [0 ..< count])) i
           = Fin (radius * root 3 (rnd (3 * i + 2)))"
proof -
  let ?ps = "concat (map (particleAt radius rnd) [0 ..< count])"
  have b: "length ?ps = 3 * count \<and>
      (\<forall>i < count. \<forall>k < 3. ?ps ! (i * 3 + k) = particleAt radius rnd i ! k)"
    by (rule concat_blocks) (simp add: particleAt_def length_particlePosition)
  note nth = b[THEN conjunct2, rule_format, OF assms(1)]
  have i3: "i * 3 + 2 < length ?ps" "i * 3 + 1 < length ?ps" "i * 3 < length ?ps"
    using b assms(1) by simp_all
  have n0: "?ps ! (i * 3) = particleAt radius rnd i ! 0"
    using nth[of 0] by simp
  have n1: "?ps ! (i * 3 + 1) = particleAt radius rnd i ! 1"
    using nth[of 1] by simp
  have n2: "?ps ! (i * 3 + 2) = particleAt radius rnd i ! 2"
    using nth[of 2] by simp
  have "magnitude ?ps i =
      length_v3 (Vector3 (particleAt radius rnd i ! 0) (particleAt radius rnd i ! 1)
        (particleAt radius rnd i ! 2))"
    unfolding magnitude_def fromBufferAttribute.simps rd_def using i3
    by (simp only: n0 n1 n2 if_True)
  then show ?thesis
    using magnitude_particlePosition[OF assms(2,3,4,5), of "rnd (3 * i)"]
    by (simp add: particleAt_def)
qed

lemma regenerateParticles_attributes:
  assumes "particleSystem s = Some oldGeo"
  shows "particleAttribute (regenerateParticles radius rnd s) ''color'' = particleAttribute s ''color''"
    and "particleAttribute (regenerateParticles radius rnd s) ''size'' = particleAttribute s ''size''"
    and "particleAttribute (regenerateParticles radius rnd s) ''random'' = particleAttribute s ''random''"
    and "particleAttribute (regenerateParticles radius rnd s) ''position'' =
           Some (concat (map (particleAt radius rnd) [0 ..< PARTICLE_COUNT]))"
    and "particleAttribute (regenerateParticles radius rnd s) ''initialPosition'' =
           Some (concat (map (particleAt radius rnd) [0 ..< PARTICLE_COUNT]))"
  using assms
  by (simp_all add: regenerateParticles_def particleAttribute_def Let_def setAttribute_def
      createParticleGeometry_attributes)

lemma particleMagnitude_regenerated:
  assumes "particleSystem s = Some oldGeo" and "i < PARTICLE_COUNT" and "0 \<le> radius"
    and "0 \<le> rnd (3 * i + 1)" and "rnd (3 * i + 1) \<le> 1" and "0 \<le> rnd (3 * i + 2)"
  shows "particleMagnitude (regenerateParticles radius rnd s) i
           = Fin (radius * root 3 (rnd (3 * i + 2)))"
  by (simp add: particleMagnitude_def regenerateParticles_attributes(4)[OF assms(1)]
      magnitude_particle[OF assms(2-6)])

text \<open>
  C7, as the code has it. A regeneration of the particle field for a radius that is not
  negative, with draws in \<open>[0, 1)\<close>, keeps the \<open>color\<close>, \<open>size\<close> and \<open>random\<close>
  attributes as they were and replaces the \<open>position\<close> and \<open>initialPosition\<close>
  attributes by one and the same new array of \<open>3 * PARTICLE_COUNT\<close> numbers. Particle
  \<open>i\<close> of the new array lies at the distance \<open>radius * cbrt w\<close> from the origin, where
  \<open>w\<close> is a draw made anew for this particle: the distance is in proportion to the
  new radius, and owes nothing to where the particle was before.
\<close>

theorem regenerateParticles_keeps_attributes:
  assumes "particleSystem s = Some oldGeo" and "0 \<le> radius"
    and "\<And>k. 0 \<le> rnd k \<and> rnd k < 1"
  shows "particleAttribute (regenerateParticles radius rnd s) ''color'' = particleAttribute s ''color''
       \<and> particleAttribute (regenerateParticles radius rnd s) ''size'' = particleAttribute s ''size''
       \<and> particleAttribute (regenerateParticles radius rnd s) ''random'' = particleAttribute s ''random''
       \<and> particleAttribute (regenerateParticles radius rnd s) ''initialPosition''
           = particleAttribute (regenerateParticles radius rnd s) ''position''
       \<and> (\<exists>positions. particleAttribute (regenerateParticles radius rnd s) ''position'' = Some positions
             \<and> length positions = 3 * PARTICLE_COUNT)
       \<and> (\<forall>i < PARTICLE_COUNT.
             particleMagnitude (regenerateParticles radius rnd s) i
               = Fin (radius * root 3 (rnd (3 * i + 2))))"
proof -
  have len: "length (concat (map (particleAt radius rnd) [0 ..< PARTICLE_COUNT])) = 3 * PARTICLE_COUNT"
    using concat_blocks[of "particleAt radius rnd" PARTICLE_COUNT]
    by (simp add: particleAt_def length_particlePosition)
  have mag: "\<forall>i < PARTICLE_COUNT. particleMagnitude (regenerateParticles radius rnd s) i
               = Fin (radius * root 3 (rnd (3 * i + 2)))"
  proof (intro allI impI)
    fix i assume "i < PARTICLE_COUNT"
    then show "particleMagnitude (regenerateParticles radius rnd s) i
        = Fin (radius * root 3 (rnd (3 * i + 2)))"
      using assms(3)[of "3 * i + 1"] assms(3)[of "3 * i + 2"]
      by (intro particleMagnitude_regenerated[OF assms(1) _ assms(2)]) simp_all
  qed
  show ?thesis
    using mag len by (simp add: regenerateParticles_attributes[OF assms(1)])
qed

lemma root3_eighth: "root 3 (1 / 8) = 1 / 2"
  using real_root_power_cancel[of 3 "1 / 2"] by (simp add: power3_eq_cube)

lemma root3_thousandth: "root 3 (1 / 1000) = 1 / 10"
  using real_root_power_cancel[of 3 "1 / 10"] by (simp add: power3_eq_cube)

lemma draws_in_range:
  "0 \<le> draws_before k \<and> draws_before k < 1" "0 \<le> draws_after k \<and> draws_after k < 1"
  by (simp_all add: draws_before_def draws_after_def)

theorem regenerateParticles_keeps_attributes_witness:
  "particleSystem scene_before = Some particles_before \<and> (0::real) \<le> 20
   \<and> particleAttribute (regenerateParticles 20 draws_after scene_before) ''color''
       = Some (replicate (3 * PARTICLE_COUNT) (Fin 1))
   \<and> particleAttribute (regenerateParticles 20 draws_after scene_before) ''size''
       = Some (replicate PARTICLE_COUNT (Fin 2))
   \<and> particleAttribute (regenerateParticles 20 draws_after scene_before) ''random''
       = Some (replicate PARTICLE_COUNT (Fin (1 / 2)))
   \<and> particleMagnitude (regenerateParticles 20 draws_after scene_before) 0 = Fin 2"
proof -
  have h: "particleSystem scene_before = Some particles_before" "(0::real) \<le> 20"
    by (simp_all add: scene_before_def)
  have a: "particleAttribute scene_before ''color'' = Some (replicate (3 * PARTICLE_COUNT) (Fin 1))"
      "particleAttribute scene_before ''size'' = Some (replicate PARTICLE_COUNT (Fin 2))"
      "particleAttribute scene_before ''random'' = Some (replicate PARTICLE_COUNT (Fin (1 / 2)))"
    by (simp_all add: particleAttribute_def scene_before_def particles_before_def setAttribute_def)
  have c: "0 < PARTICLE_COUNT"
    by (simp add: PARTICLE_COUNT_def)
  have "particleMagnitude (regenerateParticles 20 draws_after scene_before) 0
      = Fin (20 * root 3 (draws_after (3 * 0 + 2)))"
    using regenerateParticles_keeps_attributes[where rnd = draws_after, OF h draws_in_range(2)] c by blast
  then have "particleMagnitude (regenerateParticles 20 draws_after scene_before) 0 = Fin 2"
    by (simp add: draws_after_def root3_thousandth)
  then show ?thesis
    using h a regenerateParticles_keeps_attributes[where rnd = draws_after, OF h draws_in_range(2)] by simp
qed

text \<open>
  The claim as the specification states it, that every position's distance grows in
  proportion when the radius goes from 10 to 20, fails: particle 0 lay at distance 5
  with its old draw \<open>1 / 8\<close> and lies at distance 2 with its new draw \<open>1 / 1000\<close>.
\<close>

theorem regenerated_magnitude_counterexample:
  "particleMagnitude scene_before 0 = Fin 5
   \<and> particleMagnitude (regenerateParticles 20 draws_after scene_before) 0 = Fin 2"
proof -
  have c: "0 < PARTICLE_COUNT"
    by (simp add: PARTICLE_COUNT_def)
  have "particleAttribute scene_before ''position'' =
      Some (concat (map (particleAt 10 draws_before) [0 ..< PARTICLE_COUNT]))"
    by (simp add: particleAttribute_def scene_before_def particles_before_def setAttribute_def
        createParticleGeometry_attributes)
  then have "particleMagnitude scene_before 0 = Fin (10 * root 3 (draws_before (3 * 0 + 2)))"
    using magnitude_particle[OF c, of 10 draws_before]
    by (simp add: particleMagnitude_def draws_before_def)
  then have before: "particleMagnitude scene_before 0 = Fin 5"
    by (simp add: draws_before_def root3_eighth)
  have "particleMagnitude (regenerateParticles 20 draws_after scene_before) 0
      = Fin (20 * root 3 (draws_after (3 * 0 + 2)))"
    by (rule particleMagnitude_regenerated[OF _ c])
       (simp_all add: scene_before_def draws_after_def)
  then have "particleMagnitude (regenerateParticles 20 draws_after scene_before) 0 = Fin 2"
    by (simp add: draws_after_def root3_thousandth)
  then show ?thesis
    using before by simp
qed

end
